theory Spec2Isabelle
  imports Complex_Main
begin

section \<open>Python values, errors and result types\<close>

text \<open>
  The exceptions that \<^verbatim>\<open>inference/infer.py\<close> can raise in the part that is modelled.
  A computation that may raise returns \<open>error + 'a\<close>, with \<open>Inl\<close> for the exception.
\<close>

datatype error =
    TypeError
  | KeyError string
  | IndexError string
  | AttributeError
  | ZeroDivisionError
  | RuntimeError
  | ValueError
  | CvError
  | NameError string

text \<open>
  An \<^verbatim>\<open>IndexError\<close> carries the kind of object whose index was out of range.
\<close>

definition frame_source :: string where
  "frame_source = ''frame source''"

definition of_tensor :: string where
  "of_tensor = ''tensor''"

definition bind_err :: "error + 'a \<Rightarrow> ('a \<Rightarrow> error + 'b) \<Rightarrow> error + 'b" where
  "bind_err m f = (case m of Inl e \<Rightarrow> Inl e | Inr x \<Rightarrow> f x)"

text \<open>Python's floor division \<^verbatim>\<open>a // b\<close> on unbounded integers.\<close>

definition floordiv :: "int \<Rightarrow> int \<Rightarrow> error + int" where
  "floordiv a b = (if b = 0 then Inl ZeroDivisionError else Inr (a div b))"

section \<open>Tensors\<close>

text \<open>
  A tensor is its shape and its elements in row-major order. Floating-point
  elements are idealised as reals.
\<close>

record tensor =
  shape :: "nat list"
  elems :: "real list"

definition dim :: "tensor \<Rightarrow> nat" where
  "dim t = length (shape t)"

definition numel :: "nat list \<Rightarrow> nat" where
  "numel sh = prod_list sh"

text \<open>\<^verbatim>\<open>t.unsqueeze(0)\<close> and \<^verbatim>\<open>t[None, ...]\<close>: a new leading dimension of size 1.\<close>

definition unsqueeze0 :: "tensor \<Rightarrow> tensor" where
  "unsqueeze0 t = \<lparr>shape = 1 # shape t, elems = elems t\<rparr>"

text \<open>\<^verbatim>\<open>t.squeeze(0)\<close>: drops the leading dimension when its size is 1, else nothing.\<close>

definition squeeze0 :: "tensor \<Rightarrow> tensor" where
  "squeeze0 t =
     (case shape t of
        [] \<Rightarrow> t
      | d # ds \<Rightarrow> if d = 1 then \<lparr>shape = ds, elems = elems t\<rparr> else t)"

text \<open>
  \<^verbatim>\<open>t[i, :, ..., :]\<close> with \<open>k\<close> index entries in all (the integer and \<open>k - 1\<close> full
  slices): the tensor needs at least \<open>k\<close> dimensions, and \<open>i\<close> must lie in the first
  one (negative \<open>i\<close> counts from the end).
\<close>

definition select0 :: "nat \<Rightarrow> tensor \<Rightarrow> int \<Rightarrow> error + tensor" where
  "select0 k t i =
     (case shape t of
        [] \<Rightarrow> Inl (IndexError of_tensor)
      | d # ds \<Rightarrow>
          if length (d # ds) < k then Inl (IndexError of_tensor)
          else
            let j = (if i < 0 then i + int d else i) in
            if j < 0 \<or> int d \<le> j then Inl (IndexError of_tensor)
            else Inr \<lparr>shape = ds,
                      elems = take (numel ds) (drop (nat j * numel ds) (elems t))\<rparr>)"

text \<open>\<^verbatim>\<open>t[None, :, :, :]\<close>: the three slices need three dimensions.\<close>

definition none_index3 :: "tensor \<Rightarrow> error + tensor" where
  "none_index3 t = (if dim t < 3 then Inl (IndexError of_tensor) else Inr (unsqueeze0 t))"

text \<open>
  \<^verbatim>\<open>torch.cat(ts)\<close> along dimension 0: the tensors have the same, positive number
  of dimensions and agree on all dimensions but the first.
\<close>

fun cat0 :: "tensor list \<Rightarrow> error + tensor" where
  "cat0 [] = Inl RuntimeError"
| "cat0 [t] = (if shape t = [] then Inl RuntimeError else Inr t)"
| "cat0 (t # u # us) =
     (case cat0 (u # us) of
        Inl e \<Rightarrow> Inl e
      | Inr r \<Rightarrow>
          if shape t = [] \<or> tl (shape t) \<noteq> tl (shape r) then Inl RuntimeError
          else Inr \<lparr>shape = (hd (shape t) + hd (shape r)) # tl (shape t),
                    elems = elems t @ elems r\<rparr>)"

section \<open>Frame source\<close>

text \<open>
  A sample is the dictionary that the dataset returns, from the keys
  \<^verbatim>\<open>'lq'\<close>, \<^verbatim>\<open>'gt'\<close>, \<^verbatim>\<open>'image'\<close>, \<^verbatim>\<open>'hq'\<close> to tensors.
\<close>

type_synonym sample = "string \<rightharpoonup> tensor"

definition has_key :: "sample \<Rightarrow> string \<Rightarrow> bool" where
  "has_key d k = (d k \<noteq> None)"

definition dict_get :: "sample \<Rightarrow> string \<Rightarrow> error + tensor" where
  "dict_get d k = (case d k of None \<Rightarrow> Inl (KeyError k) | Some v \<Rightarrow> Inr v)"

text \<open>
  Modelled from the spec: the dataset class \<^verbatim>\<open>XrayVideoTestDatasetSTF\<close> is not
  part of the sources. The Frame Source is an indexable, ordered collection of
  \<open>N\<close> samples at the indices \<open>0..N-1\<close>; a lookup outside these bounds fails
  fatally. Every lookup returns a fresh sample, so the in-place
  \<^verbatim>\<open>unsqueeze_\<close> on one lookup's result is not seen by a later lookup.
\<close>

definition dataset_get :: "sample list \<Rightarrow> int \<Rightarrow> error + sample" where
  "dataset_get dataset i =
     (if 0 \<le> i \<and> i < int (length dataset) then Inr (dataset ! nat i)
      else Inl (IndexError frame_source))"

section \<open>Temporal window: index arithmetic\<close>

text \<open>\<^verbatim>\<open>model_config['center_frame_idx'] = 1\<close>\<close>

definition center_frame_idx :: int where
  "center_frame_idx = 1"

text \<open>\<^verbatim>\<open>max(0, int(idx - lo_frame_sep))\<close>\<close>

definition lo_prev_index :: "int \<Rightarrow> int \<Rightarrow> int" where
  "lo_prev_index idx lo_frame_sep = max 0 (idx - lo_frame_sep)"

text \<open>\<^verbatim>\<open>min(len(dataset) - 1, int(idx + lo_frame_sep))\<close>\<close>

definition lo_next_index :: "sample list \<Rightarrow> int \<Rightarrow> int \<Rightarrow> int" where
  "lo_next_index dataset idx lo_frame_sep =
     min (int (length dataset) - 1) (idx + lo_frame_sep)"

text \<open>\<^verbatim>\<open>max(0, int(idx // (hi_frame_sep*2) * hi_frame_sep * 2))\<close>\<close>

definition hi_start_index :: "int \<Rightarrow> int \<Rightarrow> error + int" where
  "hi_start_index idx hi_frame_sep =
     bind_err (floordiv idx (hi_frame_sep * 2))
       (\<lambda>q. Inr (max 0 (q * hi_frame_sep * 2)))"

text \<open>\<^verbatim>\<open>min(gt_size[2], int((idx // (hi_frame_sep*2) + 1) * hi_frame_sep * 2))\<close>\<close>

definition hi_end_index :: "int \<Rightarrow> int \<Rightarrow> int \<Rightarrow> error + int" where
  "hi_end_index gt_size2 idx hi_frame_sep =
     bind_err (floordiv idx (hi_frame_sep * 2))
       (\<lambda>q. Inr (min gt_size2 ((q + 1) * hi_frame_sep * 2)))"

text \<open>
  The flag appended to \<^verbatim>\<open>masks\<close>:
  \<^verbatim>\<open>(idx == max(0, ...)) or (idx == min(len(dataset)-1, int(idx+lo_frame_sep)))\<close>.
\<close>

definition boundary_flag :: "sample list \<Rightarrow> int \<Rightarrow> int \<Rightarrow> int \<Rightarrow> error + int" where
  "boundary_flag dataset lo_frame_sep hi_frame_sep idx =
     bind_err (hi_start_index idx hi_frame_sep)
       (\<lambda>s. Inr (if idx = s \<or> idx = lo_next_index dataset idx lo_frame_sep
                  then 1 else 0))"

text \<open>The specification's \<open>clamp(x, lo, hi)\<close>, written from its words.\<close>

definition spec_clamp :: "int \<Rightarrow> int \<Rightarrow> int \<Rightarrow> int" where
  "spec_clamp x lo hi = max lo (min hi x)"

text \<open>The specification's \<open>blkStart = floor(idx / (2*hiSep)) * (2*hiSep)\<close>.\<close>

definition spec_blkStart :: "int \<Rightarrow> int \<Rightarrow> int" where
  "spec_blkStart idx hiSep = (idx div (2 * hiSep)) * (2 * hiSep)"

section \<open>Temporal window: assembly\<close>

text \<open>
  Lines 192 to 202: the target sample is looked up, its \<^verbatim>\<open>'lq'\<close> and its
  reference (\<^verbatim>\<open>'gt'\<close> when present, \<^verbatim>\<open>'image'\<close> otherwise) get a leading batch
  dimension, and \<^verbatim>\<open>val_data\<close> is built from them and from \<^verbatim>\<open>'hq'\<close>. Moving a
  tensor to the device (\<^verbatim>\<open>.cuda()\<close>, \<^verbatim>\<open>.cpu()\<close>) does not change its value
  and is left out.
\<close>

definition load_target :: "sample list \<Rightarrow> int \<Rightarrow> error + sample" where
  "load_target dataset idx =
     bind_err (dataset_get dataset idx) (\<lambda>s.
     bind_err (dict_get s ''lq'') (\<lambda>l.
     let s1 = s(''lq'' \<mapsto> unsqueeze0 l) in
     bind_err
       (if has_key s1 ''gt''
        then bind_err (dict_get s1 ''gt'') (\<lambda>g. Inr (s1(''gt'' \<mapsto> unsqueeze0 g)))
        else bind_err (dict_get s1 ''image'') (\<lambda>g. Inr (s1(''image'' \<mapsto> unsqueeze0 g))))
       (\<lambda>val_data0.
          if has_key val_data0 ''gt''
          then
            bind_err (dict_get val_data0 ''lq'') (\<lambda>vl.
            bind_err (dict_get val_data0 ''gt'') (\<lambda>vg.
            bind_err (dict_get val_data0 ''hq'') (\<lambda>vh.
            bind_err (none_index3 vh) (\<lambda>vh'.
            Inr [''lq'' \<mapsto> vl, ''gt'' \<mapsto> vg, ''hq'' \<mapsto> vh']))))
          else
            bind_err (dict_get val_data0 ''lq'') (\<lambda>vl.
            bind_err (dict_get val_data0 ''image'') (\<lambda>vg.
            bind_err (dict_get val_data0 ''hq'') (\<lambda>vh.
            bind_err (none_index3 vh) (\<lambda>vh'.
            Inr [''lq'' \<mapsto> vl, ''image'' \<mapsto> vg, ''hq'' \<mapsto> vh'])))))))"

text \<open>
  Lines 204 to 206: the centre slices of the previous, the current and the next
  sample, each with a new leading dimension, concatenated and batched. The three
  operands of \<^verbatim>\<open>torch.cat\<close> are evaluated from left to right.
\<close>

definition assemble_lq :: "sample list \<Rightarrow> int \<Rightarrow> int \<Rightarrow> sample \<Rightarrow> error + sample" where
  "assemble_lq dataset lo_frame_sep idx val_data =
     bind_err (dataset_get dataset (lo_prev_index idx lo_frame_sep)) (\<lambda>p.
     bind_err (dict_get p ''lq'') (\<lambda>pl.
     bind_err (select0 4 pl center_frame_idx) (\<lambda>a.
     bind_err (dict_get val_data ''lq'') (\<lambda>cl.
     bind_err (select0 5 cl 0) (\<lambda>cl0.
     bind_err (select0 4 cl0 center_frame_idx) (\<lambda>b.
     bind_err (dataset_get dataset (lo_next_index dataset idx lo_frame_sep)) (\<lambda>n.
     bind_err (dict_get n ''lq'') (\<lambda>nl.
     bind_err (select0 4 nl center_frame_idx) (\<lambda>c.
     bind_err (cat0 [unsqueeze0 a, unsqueeze0 b, unsqueeze0 c]) (\<lambda>t.
     Inr (val_data(''lq'' \<mapsto> unsqueeze0 t))))))))))))"

text \<open>
  Lines 208 to 215: the reference key is chosen on the sample at the block
  start; the pair is built from the references at the block start and the block
  end when the reference has four or three dimensions, and \<^verbatim>\<open>val_data['hq']\<close>
  is left as it is otherwise. The source looks the block-start sample up again
  for each use; the dataset is read-only, so one lookup is bound here.
\<close>

definition assemble_hq ::
  "sample list \<Rightarrow> int \<Rightarrow> int \<Rightarrow> int \<Rightarrow> sample \<Rightarrow> error + sample" where
  "assemble_hq dataset gt_size2 hi_frame_sep idx val_data =
     bind_err (hi_start_index idx hi_frame_sep) (\<lambda>s.
     bind_err (dataset_get dataset s) (\<lambda>first.
     let gt_key = (if has_key first ''gt'' then ''gt'' else ''image'') in
     bind_err (dict_get first gt_key) (\<lambda>r.
     if length (shape r) = 4 then
       bind_err (select0 4 r 0) (\<lambda>a.
       bind_err (hi_end_index gt_size2 idx hi_frame_sep) (\<lambda>e.
       bind_err (dataset_get dataset e) (\<lambda>last.
       bind_err (dict_get last gt_key) (\<lambda>r2.
       bind_err (select0 4 r2 0) (\<lambda>b.
       bind_err (cat0 [unsqueeze0 a, unsqueeze0 b]) (\<lambda>t.
       Inr (val_data(''hq'' \<mapsto> unsqueeze0 t))))))))
     else if length (shape r) = 3 then
       bind_err (hi_end_index gt_size2 idx hi_frame_sep) (\<lambda>e.
       bind_err (dataset_get dataset e) (\<lambda>last.
       bind_err (dict_get last gt_key) (\<lambda>r2.
       bind_err (cat0 [unsqueeze0 r, unsqueeze0 r2]) (\<lambda>t.
       Inr (val_data(''hq'' \<mapsto> unsqueeze0 t))))))
     else Inr val_data)))"

text \<open>
  Lines 192 to 220 of one loop iteration: the window handed to the model and
  the boundary flag appended to \<^verbatim>\<open>masks\<close>.
\<close>

definition window_assembly ::
  "sample list \<Rightarrow> int \<Rightarrow> int \<Rightarrow> int \<Rightarrow> int \<Rightarrow> error + (sample \<times> int)" where
  "window_assembly dataset gt_size2 lo_frame_sep hi_frame_sep idx =
     bind_err (load_target dataset idx) (\<lambda>v0.
     bind_err (assemble_lq dataset lo_frame_sep idx v0) (\<lambda>v1.
     bind_err (assemble_hq dataset gt_size2 hi_frame_sep idx v1) (\<lambda>val_data.
     bind_err (boundary_flag dataset lo_frame_sep hi_frame_sep idx) (\<lambda>flag.
     Inr (val_data, flag)))))"

section \<open>Image codec adapter\<close>

text \<open>
  The argument of \<^verbatim>\<open>tensor2img\<close> is any Python object: a tensor, a list of
  objects, or something else.
\<close>

datatype pyobj = Tensor tensor | PyList "pyobj list" | Other

definition is_tensor :: "pyobj \<Rightarrow> bool" where
  "is_tensor x = (case x of Tensor t \<Rightarrow> True | PyList xs \<Rightarrow> False | Other \<Rightarrow> False)"

text \<open>The tensors of a list whose members are all tensors.\<close>

fun tensors_of :: "pyobj list \<Rightarrow> tensor list" where
  "tensors_of [] = []"
| "tensors_of (Tensor t # xs) = t # tensors_of xs"
| "tensors_of (x # xs) = tensors_of xs"

text \<open>
  \<^verbatim>\<open>out_type\<close>: the source distinguishes \<^verbatim>\<open>np.uint8\<close> from every other type,
  which its documentation takes to be a float type.
\<close>

datatype out_type = UInt8 | FloatType

text \<open>
  Library functions that are called and not defined in the repository, each of
  which may raise:
  \<^verbatim>\<open>torchvision.utils.make_grid(t, nrow=n, normalize=False)\<close>,
  \<^verbatim>\<open>cv2.cvtColor(img, cv2.COLOR_RGB2BGR)\<close>, the network
  (\<^verbatim>\<open>results['out']\<close>, and the elements of \<^verbatim>\<open>results['corr_score']\<close> after
  \<^verbatim>\<open>.squeeze().numpy()\<close>, which has one axis when it has more than one element),
  numpy's broadcasting subtraction and \<^verbatim>\<open>skimage.metrics.structural_similarity\<close>.
\<close>

record externals =
  make_grid :: "tensor \<Rightarrow> nat \<Rightarrow> error + tensor"
  cvtColor_RGB2BGR :: "tensor \<Rightarrow> error + tensor"
  model :: "sample \<Rightarrow> error + tensor \<times> real list"
  np_subtract :: "tensor \<Rightarrow> tensor \<Rightarrow> error + tensor"
  ssim :: "tensor \<Rightarrow> tensor \<Rightarrow> error + real"

text \<open>\<^verbatim>\<open>int(math.sqrt(n))\<close>, with the real square root for the floating-point one.\<close>

definition int_sqrt :: "nat \<Rightarrow> nat" where
  "int_sqrt n = nat \<lfloor>sqrt (real n)\<rfloor>"

text \<open>\<^verbatim>\<open>.clamp_(*min_max)\<close> and the rescaling to \<open>[0, 1]\<close>, element by element.\<close>

definition clamp_tensor :: "real \<times> real \<Rightarrow> tensor \<Rightarrow> tensor" where
  "clamp_tensor min_max t = t\<lparr>elems := map (\<lambda>x. min (snd min_max) (max (fst min_max) x)) (elems t)\<rparr>"

definition normalize :: "real \<times> real \<Rightarrow> tensor \<Rightarrow> tensor" where
  "normalize min_max t =
     t\<lparr>elems := map (\<lambda>x. (x - fst min_max) / (snd min_max - fst min_max)) (elems t)\<rparr>"

text \<open>
  \<^verbatim>\<open>img_np.transpose(1, 2, 0)\<close>: a \<open>C \<times> H \<times> W\<close> array becomes \<open>H \<times> W \<times> C\<close>;
  numpy refuses an array that does not have three axes.
\<close>

definition transpose120 :: "tensor \<Rightarrow> error + tensor" where
  "transpose120 t =
     (case shape t of
        [c, h, w] \<Rightarrow>
          Inr \<lparr>shape = [h, w, c],
               elems = concat (map (\<lambda>i. concat (map (\<lambda>j.
                         map (\<lambda>k. elems t ! (k * h * w + i * w + j)) [0..<c]) [0..<w])) [0..<h])\<rparr>
      | _ \<Rightarrow> Inl ValueError)"

text \<open>\<^verbatim>\<open>np.squeeze(img_np, axis=2)\<close> on an array whose third axis has size 1.\<close>

definition np_squeeze2 :: "tensor \<Rightarrow> tensor" where
  "np_squeeze2 t = t\<lparr>shape := take 2 (shape t)\<rparr>"

text \<open>\<^verbatim>\<open>.round()\<close> of numpy rounds a half to the even neighbour.\<close>

definition np_round :: "real \<Rightarrow> real" where
  "np_round x =
     (let f = \<lfloor>x\<rfloor>; r = x - of_int f in
      if r < 1 / 2 then of_int f
      else if 1 / 2 < r then of_int (f + 1)
      else if even f then of_int f else of_int (f + 1))"

text \<open>\<^verbatim>\<open>.astype(out_type)\<close>: a cast to eight bits keeps the integer part modulo 256.\<close>

definition astype :: "out_type \<Rightarrow> tensor \<Rightarrow> tensor" where
  "astype ty t =
     (case ty of
        UInt8 \<Rightarrow> t\<lparr>elems := map (\<lambda>x. of_int (\<lfloor>x\<rfloor> mod 256)) (elems t)\<rparr>
      | FloatType \<Rightarrow> t)"

text \<open>
  Lines 52 to 69: the dispatch on the number of dimensions. An error of
  \<^verbatim>\<open>make_grid\<close>, of the transposition or of \<^verbatim>\<open>cv2.cvtColor\<close> is passed on.
\<close>

definition to_image :: "externals \<Rightarrow> bool \<Rightarrow> tensor \<Rightarrow> error + tensor" where
  "to_image ext rgb2bgr t =
     (let n_dim = dim t in
      if n_dim = 4 then
        bind_err (make_grid ext t (int_sqrt (hd (shape t)))) (\<lambda>grid.
        bind_err (transpose120 grid) (\<lambda>img_np.
        if rgb2bgr then cvtColor_RGB2BGR ext img_np else Inr img_np))
      else if n_dim = 3 then
        bind_err (transpose120 t) (\<lambda>img_np.
        if shape img_np ! 2 = 1 then Inr (np_squeeze2 img_np)
        else if rgb2bgr then cvtColor_RGB2BGR ext img_np else Inr img_np)
      else if n_dim = 2 then Inr t
      else Inl TypeError)"

text \<open>Lines 49 and 50: squeeze, clamp and rescale.\<close>

definition prepare :: "real \<times> real \<Rightarrow> tensor \<Rightarrow> tensor" where
  "prepare min_max t0 = normalize min_max (clamp_tensor min_max (squeeze0 t0))"

text \<open>Lines 70 to 73: rounding for eight-bit output, and the cast.\<close>

definition cast_output :: "out_type \<Rightarrow> tensor \<Rightarrow> tensor" where
  "cast_output ty img_np =
     astype ty (if ty = UInt8
                then img_np\<lparr>elems := map (\<lambda>x. np_round (x * 255)) (elems img_np)\<rparr>
                else img_np)"

text \<open>Lines 49 to 73: the body of the loop over the tensors.\<close>

definition convert_one ::
  "externals \<Rightarrow> bool \<Rightarrow> out_type \<Rightarrow> real \<times> real \<Rightarrow> tensor \<Rightarrow> error + tensor" where
  "convert_one ext rgb2bgr ty min_max t0 =
     bind_err (to_image ext rgb2bgr (prepare min_max t0)) (\<lambda>img_np.
     Inr (cast_output ty img_np))"

fun convert_all ::
  "externals \<Rightarrow> bool \<Rightarrow> out_type \<Rightarrow> real \<times> real \<Rightarrow> tensor list \<Rightarrow> error + tensor list" where
  "convert_all ext rgb2bgr ty min_max [] = Inr []"
| "convert_all ext rgb2bgr ty min_max (t # ts) =
     bind_err (convert_one ext rgb2bgr ty min_max t) (\<lambda>r.
     bind_err (convert_all ext rgb2bgr ty min_max ts) (\<lambda>rs. Inr (r # rs)))"

text \<open>The value returned: the only array when there is one, the list otherwise.\<close>

datatype pyresult = Single tensor | Many "tensor list"

definition wrap_result :: "tensor list \<Rightarrow> pyresult" where
  "wrap_result result = (case result of [r] \<Rightarrow> Single r | _ \<Rightarrow> Many result)"

definition tensor2img ::
  "externals \<Rightarrow> pyobj \<Rightarrow> bool \<Rightarrow> out_type \<Rightarrow> real \<times> real \<Rightarrow> error + pyresult" where
  "tensor2img ext x rgb2bgr ty min_max =
     (case x of
        Tensor t \<Rightarrow>
          bind_err (convert_all ext rgb2bgr ty min_max [t]) (\<lambda>rs. Inr (wrap_result rs))
      | PyList xs \<Rightarrow>
          if list_all is_tensor xs
          then bind_err (convert_all ext rgb2bgr ty min_max (tensors_of xs))
                 (\<lambda>rs. Inr (wrap_result rs))
          else Inl TypeError
      | Other \<Rightarrow> Inl TypeError)"

section \<open>Metrics\<close>

text \<open>
  A float of numpy: a finite value, idealised as a real, an infinity, or not a
  number. A division by zero gives an infinity and a warning, not an exception.
\<close>

datatype xfloat = Fin real | PInf | NInf | NaN

text \<open>IEEE comparison \<open><\<close>: not a number compares with nothing.\<close>

fun xless :: "xfloat \<Rightarrow> xfloat \<Rightarrow> bool" where
  "xless (Fin a) (Fin b) = (a < b)"
| "xless (Fin a) PInf = True"
| "xless NInf (Fin b) = True"
| "xless NInf PInf = True"
| "xless x y = False"

text \<open>\<^verbatim>\<open>np.mean\<close> of the elements of an array; of no elements it is not a number.\<close>

definition np_mean :: "real list \<Rightarrow> xfloat" where
  "np_mean xs = (if xs = [] then NaN else Fin (sum_list xs / real (length xs)))"

text \<open>
  \<^verbatim>\<open>a / x\<close>, \<^verbatim>\<open>np.log10(x)\<close> and \<^verbatim>\<open>a * x\<close> for a finite \<open>a\<close>. A zero
  divisor is the positive zero that the mean of squares gives.
\<close>

fun np_divide :: "real \<Rightarrow> xfloat \<Rightarrow> xfloat" where
  "np_divide a (Fin b) =
     (if b \<noteq> 0 then Fin (a / b) else if a = 0 then NaN else if 0 < a then PInf else NInf)"
| "np_divide a PInf = Fin 0"
| "np_divide a NInf = Fin 0"
| "np_divide a NaN = NaN"

fun np_log10 :: "xfloat \<Rightarrow> xfloat" where
  "np_log10 (Fin x) = (if 0 < x then Fin (log 10 x) else if x = 0 then NInf else NaN)"
| "np_log10 PInf = PInf"
| "np_log10 NInf = NaN"
| "np_log10 NaN = NaN"

fun np_times :: "real \<Rightarrow> xfloat \<Rightarrow> xfloat" where
  "np_times a (Fin x) = Fin (a * x)"
| "np_times a PInf = (if 0 < a then PInf else if a < 0 then NInf else NaN)"
| "np_times a NInf = (if 0 < a then NInf else if a < 0 then PInf else NaN)"
| "np_times a NaN = NaN"

text \<open>\<^verbatim>\<open>psnr = 10. * np.log10(255. * 255. / mse)\<close>\<close>

definition psnr_of :: "xfloat \<Rightarrow> xfloat" where
  "psnr_of mse = np_times 10 (np_log10 (np_divide (255 * 255) mse))"

text \<open>\<^verbatim>\<open>.astype(float)\<close> is a method of an array, not of a list.\<close>

definition as_array :: "pyresult \<Rightarrow> error + tensor" where
  "as_array r = (case r of Single a \<Rightarrow> Inr a | Many as \<Rightarrow> Inl AttributeError)"

text \<open>\<^verbatim>\<open>result_img[result_img > 255] = 255\<close>\<close>

definition clip255 :: "tensor \<Rightarrow> tensor" where
  "clip255 t = t\<lparr>elems := map (\<lambda>x. if 255 < x then 255 else x) (elems t)\<rparr>"

text \<open>\<^verbatim>\<open>hi_img[:, :, 0]\<close> on an array with three axes.\<close>

definition first_channel :: "tensor \<Rightarrow> error + tensor" where
  "first_channel t =
     (case shape t of
        [h, w, c] \<Rightarrow>
          if c = 0 then Inl (IndexError ''array'')
          else Inr \<lparr>shape = [h, w], elems = map (\<lambda>i. elems t ! (i * c)) [0..<h * w]\<rparr>
      | _ \<Rightarrow> Inl (IndexError ''array''))"

text \<open>Lines 222 to 243: the reconstruction is scored against the reference.\<close>

definition score :: "externals \<Rightarrow> sample \<Rightarrow> tensor \<Rightarrow> error + xfloat \<times> xfloat \<times> real" where
  "score ext val_data result =
     bind_err (tensor2img ext (Tensor result) True UInt8 (0, 1)) (\<lambda>r.
     bind_err (as_array r) (\<lambda>img.
     let result_img = clip255 img in
     bind_err (if has_key val_data ''gt'' then dict_get val_data ''gt''
               else dict_get val_data ''image'') (\<lambda>gt.
     bind_err (tensor2img ext (Tensor gt) True UInt8 (0, 1)) (\<lambda>h.
     bind_err (as_array h) (\<lambda>hi0.
     bind_err (if dim hi0 = 3 then first_channel hi0 else Inr hi0) (\<lambda>hi_img.
     bind_err (np_subtract ext result_img hi_img) (\<lambda>diff.
     let mse = np_mean (map (\<lambda>d. d * d) (elems diff));
         psnr = psnr_of mse;
         aad = np_mean (map abs (elems diff))
     in bind_err (ssim ext result_img hi_img) (\<lambda>s. Inr (psnr, aad, s)))))))))"

section \<open>Aggregation and report\<close>

text \<open>
  The lists that grow over the run and \<^verbatim>\<open>result_dict\<close>, which is unbound until
  an iteration assigns it. Its values for \<^verbatim>\<open>'psnr'\<close>, \<^verbatim>\<open>'aad'\<close>, \<^verbatim>\<open>'ssim'\<close>
  and \<^verbatim>\<open>'mask'\<close> are the growing lists themselves, not copies, so an entry of
  the dictionary is a reference to one of them or a column of its own.
\<close>

datatype entry = PsnrsRef | AadsRef | SsimsRef | MasksRef | Column "real list"

record run_state =
  psnrs :: "xfloat list"
  aads :: "xfloat list"
  ssims :: "real list"
  atts :: "real list list"
  masks :: "int list"
  result_dict :: "(string \<times> entry) list option"

definition init_state :: run_state where
  "init_state = \<lparr>psnrs = [], aads = [], ssims = [], atts = [], masks = [],
                  result_dict = None\<rparr>"

text \<open>\<^verbatim>\<open>np.vstack(atts)\<close> of vectors: they must have one length.\<close>

definition np_vstack :: "real list list \<Rightarrow> error + real list list" where
  "np_vstack rows =
     (if rows = [] then Inl ValueError
      else if list_all (\<lambda>r. length r = length (hd rows)) rows then Inr rows
      else Inl ValueError)"

text \<open>\<^verbatim>\<open>att_all[:, k]\<close>\<close>

definition att_column :: "real list list \<Rightarrow> nat \<Rightarrow> entry" where
  "att_column att_all k = Column (map (\<lambda>r. r ! k) att_all)"

text \<open>Lines 254 to 258: \<^verbatim>\<open>result_dict\<close> is assigned for the widths 4 and 5 only.\<close>

definition assign_result_dict :: "real list list \<Rightarrow> run_state \<Rightarrow> run_state" where
  "assign_result_dict att_all st =
     (if length (hd att_all) = 4 then
        st\<lparr>result_dict := Some
          [(''psnr'', PsnrsRef), (''aad'', AadsRef), (''ssim'', SsimsRef),
           (''t-1 lo'', att_column att_all 0), (''t lo'', att_column att_all 1),
           (''t+1 lo'', att_column att_all 2), (''t hi'', att_column att_all 3)]\<rparr>
      else if length (hd att_all) = 5 then
        st\<lparr>result_dict := Some
          [(''psnr'', PsnrsRef), (''aad'', AadsRef), (''ssim'', SsimsRef),
           (''t-1 lo'', att_column att_all 0), (''t lo'', att_column att_all 1),
           (''t+1 lo'', att_column att_all 2), (''t-1 hi'', att_column att_all 3),
           (''t+1 hi'', att_column att_all 4)]\<rparr>
      else st)"

text \<open>
  One iteration of the loop, lines 190 to 258. Printing and the image file that
  is written are left out. \<^verbatim>\<open>corr...squeeze().numpy()[-1]\<close> needs an axis with a
  last component: a score of one element has no axis left after the squeeze, and
  an empty one has no last component.
\<close>

definition iteration ::
  "externals \<Rightarrow> sample list \<Rightarrow> int \<Rightarrow> int \<Rightarrow> int \<Rightarrow> run_state \<Rightarrow> int \<Rightarrow> error + run_state" where
  "iteration ext dataset gt_size2 lo_frame_sep hi_frame_sep st idx =
     bind_err (window_assembly dataset gt_size2 lo_frame_sep hi_frame_sep idx) (\<lambda>(val_data, flag).
     let st1 = st\<lparr>masks := masks st @ [flag]\<rparr> in
     bind_err (model ext val_data) (\<lambda>(result, corr).
     bind_err (score ext val_data result) (\<lambda>(psnr, aad, s).
     let st2 = st1\<lparr>psnrs := psnrs st1 @ [psnr], aads := aads st1 @ [aad],
                   ssims := ssims st1 @ [s]\<rparr> in
     if length corr \<le> 1 then Inl (IndexError ''array'')
     else
       let st3 = st2\<lparr>atts := atts st2 @ [corr]\<rparr> in
       bind_err (np_vstack (atts st3)) (\<lambda>att_all.
       Inr (assign_result_dict att_all st3)))))"

fun run_loop ::
  "externals \<Rightarrow> sample list \<Rightarrow> int \<Rightarrow> int \<Rightarrow> int \<Rightarrow> run_state \<Rightarrow> int list \<Rightarrow> error + run_state" where
  "run_loop ext dataset gt_size2 lo_frame_sep hi_frame_sep st [] = Inr st"
| "run_loop ext dataset gt_size2 lo_frame_sep hi_frame_sep st (idx # idxs) =
     bind_err (iteration ext dataset gt_size2 lo_frame_sep hi_frame_sep st idx) (\<lambda>st'.
     run_loop ext dataset gt_size2 lo_frame_sep hi_frame_sep st' idxs)"

text \<open>The columns of the table that is written.\<close>

datatype column = Floats "xfloat list" | Reals "real list" | Ints "int list"

fun column_length :: "column \<Rightarrow> nat" where
  "column_length (Floats xs) = length xs"
| "column_length (Reals xs) = length xs"
| "column_length (Ints xs) = length xs"

fun resolve :: "run_state \<Rightarrow> entry \<Rightarrow> column" where
  "resolve st PsnrsRef = Floats (psnrs st)"
| "resolve st AadsRef = Floats (aads st)"
| "resolve st SsimsRef = Reals (ssims st)"
| "resolve st MasksRef = Ints (masks st)"
| "resolve st (Column xs) = Reals xs"

text \<open>\<^verbatim>\<open>pd.DataFrame(d)\<close> of a dictionary of columns: they must have one length.\<close>

definition data_frame :: "(string \<times> column) list \<Rightarrow> error + (string \<times> column) list" where
  "data_frame d =
     (if list_all (\<lambda>kc. column_length (snd kc) = column_length (snd (hd d))) d then Inr d
      else Inl ValueError)"

text \<open>
  Lines 261 to 264, after the loop: the mask column is added when there are
  flags, and the table is built. A use of \<^verbatim>\<open>result_dict\<close> that no iteration has
  assigned raises \<^verbatim>\<open>NameError\<close>.
\<close>

definition report :: "run_state \<Rightarrow> error + (string \<times> column) list" where
  "report st =
     bind_err
       (if masks st \<noteq> [] then
          (case result_dict st of
             None \<Rightarrow> Inl (NameError ''result_dict'')
           | Some d \<Rightarrow> Inr (Some (d @ [(''mask'', MasksRef)])))
        else Inr (result_dict st))
       (\<lambda>rd. case rd of
                None \<Rightarrow> Inl (NameError ''result_dict'')
              | Some d \<Rightarrow> data_frame (map (\<lambda>ke. (fst ke, resolve st (snd ke))) d))"

text \<open>\<^verbatim>\<open>range(start, stop, step)\<close>\<close>

definition py_range :: "int \<Rightarrow> int \<Rightarrow> int \<Rightarrow> error + int list" where
  "py_range start stop step =
     (if step = 0 then Inl ValueError
      else if 0 < step
      then Inr (map (\<lambda>k. start + int k * step) [0..<nat ((stop - start + step - 1) div step)])
      else Inr (map (\<lambda>k. start + int k * step) [0..<nat ((start - stop - step - 1) div (- step))]))"

text \<open>
  The run: \<^verbatim>\<open>for idx in range(rank+1, len(dataset), world_size)\<close>, then the
  report. \<open>rank\<close> and \<open>world_size\<close> come from \<^verbatim>\<open>get_dist_info()\<close>.
\<close>

definition run ::
  "externals \<Rightarrow> sample list \<Rightarrow> int \<Rightarrow> int \<Rightarrow> int \<Rightarrow> int \<Rightarrow> int \<Rightarrow> error + (string \<times> column) list" where
  "run ext dataset gt_size2 lo_frame_sep hi_frame_sep rank world_size =
     bind_err (py_range (rank + 1) (int (length dataset)) world_size) (\<lambda>idxs.
     bind_err (run_loop ext dataset gt_size2 lo_frame_sep hi_frame_sep init_state idxs) report)"

section \<open>The specification's window and the sample invariant\<close>

text \<open>
  The specification's words for the window: from each of the three samples only
  the \<open>center_frame_idx\<close> slice of the low-resolution stack is taken, and the three
  slices are concatenated in the order previous, current, next.
\<close>

definition spec_center_slice :: "tensor \<Rightarrow> tensor" where
  "spec_center_slice l =
     \<lparr>shape = tl (shape l),
      elems = take (numel (tl (shape l)))
                (drop (nat center_frame_idx * numel (tl (shape l))) (elems l))\<rparr>"

definition spec_lq_triple :: "tensor \<Rightarrow> tensor \<Rightarrow> tensor \<Rightarrow> tensor" where
  "spec_lq_triple p c n =
     \<lparr>shape = [1, 3] @ tl (shape c),
      elems = elems (spec_center_slice p) @ elems (spec_center_slice c)
              @ elems (spec_center_slice n)\<rparr>"

text \<open>
  The reference pair: of a reference with four dimensions the leading slice is
  taken, a reference with three dimensions is used as it is.
\<close>

definition spec_leading :: "tensor \<Rightarrow> tensor" where
  "spec_leading r =
     (if dim r = 4
      then \<lparr>shape = tl (shape r), elems = take (numel (tl (shape r))) (elems r)\<rparr>
      else r)"

definition spec_hq_pair :: "tensor \<Rightarrow> tensor \<Rightarrow> tensor" where
  "spec_hq_pair a b =
     \<lparr>shape = [1, 2] @ shape (spec_leading a),
      elems = elems (spec_leading a) @ elems (spec_leading b)\<rparr>"

text \<open>
  The invariant of the samples of a sequence: every low-resolution stack has the
  shape \<open>lsh\<close>, with four dimensions and a slice at \<open>center_frame_idx\<close>; the
  auxiliary frame has three dimensions at least; the reference is found under
  the one key \<open>gt_key\<close> that the code selects, with the shape \<open>rsh\<close> of three or
  four dimensions.
\<close>

definition wf_sample :: "string \<Rightarrow> nat list \<Rightarrow> nat list \<Rightarrow> sample \<Rightarrow> bool" where
  "wf_sample gt_key lsh rsh s =
     ((case s ''lq'' of None \<Rightarrow> False | Some l \<Rightarrow> shape l = lsh) \<and>
      (case s ''hq'' of None \<Rightarrow> False | Some h \<Rightarrow> 3 \<le> dim h) \<and>
      (case s gt_key of None \<Rightarrow> False | Some r \<Rightarrow> shape r = rsh) \<and>
      (gt_key = ''gt'' \<or> (gt_key = ''image'' \<and> s ''gt'' = None)))"

definition wf_shapes :: "nat list \<Rightarrow> nat list \<Rightarrow> bool" where
  "wf_shapes lsh rsh =
     (length lsh = 4 \<and> 2 \<le> hd lsh \<and>
      (length rsh = 3 \<or> (length rsh = 4 \<and> 1 \<le> hd rsh)))"

definition wf_dataset :: "string \<Rightarrow> nat list \<Rightarrow> nat list \<Rightarrow> sample list \<Rightarrow> bool" where
  "wf_dataset gt_key lsh rsh dataset =
     (wf_shapes lsh rsh \<and> list_all (wf_sample gt_key lsh rsh) dataset)"

text \<open>
  A sequence of ten samples for the scenarios: the \<open>i\<close>-th low-resolution stack
  holds two \<open>1 \<times> 1 \<times> 1\<close> frames with the values \<open>i\<close> and \<open>10 + i\<close>, the reference is
  the frame with the value \<open>20 + i\<close>.
\<close>

definition example_sample :: "real \<Rightarrow> sample" where
  "example_sample v =
     [''lq'' \<mapsto> \<lparr>shape = [2, 1, 1, 1], elems = [v, 10 + v]\<rparr>,
      ''gt'' \<mapsto> \<lparr>shape = [1, 1, 1], elems = [20 + v]\<rparr>,
      ''hq'' \<mapsto> \<lparr>shape = [1, 1, 1], elems = [30 + v]\<rparr>]"

definition example_dataset :: "sample list" where
  "example_dataset = map example_sample [0, 1, 2, 3, 4, 5, 6, 7, 8, 9]"

text \<open>
  Stand-ins for the two image libraries in the scenarios; they follow the
  libraries where these fail and in what they return.

  \<^verbatim>\<open>make_grid\<close> of torchvision, with its padding of 2 and pad value 0, on a
  batch \<open>B \<times> C \<times> H \<times> W\<close>: single-channel images are repeated to three channels; a
  batch of one image is returned as that image; otherwise the images are laid out
  in \<open>min(nrow, B)\<close> columns and \<open>ceil(B / columns)\<close> rows of padded cells, and the
  division fails when there is no column.
\<close>

definition tv_make_grid :: "tensor \<Rightarrow> nat \<Rightarrow> error + tensor" where
  "tv_make_grid t nrow =
     (case shape t of
        [b, c, h, w] \<Rightarrow>
          let c' = (if c = 1 then 3 else c);
              pixel = (\<lambda>k ch i j.
                 elems t ! (((k * c + (if c = 1 then 0 else ch)) * h + i) * w + j))
          in
          if b = 1 then
            Inr \<lparr>shape = [c', h, w],
                 elems = concat (map (\<lambda>ch. concat (map (\<lambda>i.
                           map (\<lambda>j. pixel 0 ch i j) [0..<w]) [0..<h])) [0..<c'])\<rparr>
          else
            let xmaps = min nrow b in
            if xmaps = 0 then Inl ZeroDivisionError
            else
              let ymaps = (b + xmaps - 1) div xmaps;
                  height = h + 2;
                  width = w + 2;
                  cell = (\<lambda>ch i j.
                     let y = i div height; x = j div width; k = y * xmaps + x in
                     if 2 \<le> i mod height \<and> 2 \<le> j mod width \<and> y < ymaps \<and> x < xmaps \<and> k < b
                     then pixel k ch (i mod height - 2) (j mod width - 2)
                     else 0)
              in Inr \<lparr>shape = [c', height * ymaps + 2, width * xmaps + 2],
                      elems = concat (map (\<lambda>ch. concat (map (\<lambda>i.
                                map (\<lambda>j. cell ch i j) [0..<width * xmaps + 2])
                                [0..<height * ymaps + 2])) [0..<c'])\<rparr>
      | _ \<Rightarrow> Inl ValueError)"

text \<open>
  \<^verbatim>\<open>cv2.cvtColor(img, cv2.COLOR_RGB2BGR)\<close> on an array \<open>H \<times> W \<times> C\<close>: it takes
  three or four channels of a non-empty image and returns the first three in
  reverse order; anything else is a \<^verbatim>\<open>cv2.error\<close>.
\<close>

definition cv_rgb2bgr :: "tensor \<Rightarrow> error + tensor" where
  "cv_rgb2bgr img =
     (case shape img of
        [h, w, c] \<Rightarrow>
          if (c = 3 \<or> c = 4) \<and> 0 < h \<and> 0 < w
          then Inr \<lparr>shape = [h, w, 3],
                    elems = concat (map (\<lambda>p. [elems img ! (p * c + 2), elems img ! (p * c + 1),
                                               elems img ! (p * c)]) [0..<h * w])\<rparr>
          else Inl CvError
      | _ \<Rightarrow> Inl CvError)"

text \<open>
  The other stand-ins: the network answers with a fixed white frame and four
  attention weights; the difference is taken element by element on equal
  shapes; the similarity is 1.
\<close>

definition example_ext :: externals where
  "example_ext =
     \<lparr>make_grid = tv_make_grid,
      cvtColor_RGB2BGR = cv_rgb2bgr,
      model = (\<lambda>w. Inr (\<lparr>shape = [1, 1, 1, 1], elems = [1]\<rparr>, [1 / 4, 1 / 4, 1 / 4, 1 / 4])),
      np_subtract = (\<lambda>a b. if shape a = shape b
                            then Inr (a\<lparr>elems := map2 (\<lambda>x y. x - y) (elems a) (elems b)\<rparr>)
                            else Inl ValueError),
      ssim = (\<lambda>a b. Inr 1)\<rparr>"

text \<open>
  An error that comes from a library call of the codec and not from its own
  dispatch: one that \<^verbatim>\<open>make_grid\<close> or \<^verbatim>\<open>cv2.cvtColor\<close> returns, or the
  \<^verbatim>\<open>ValueError\<close> of the transposition of a grid that does not have three axes.
\<close>

definition library_error :: "externals \<Rightarrow> error \<Rightarrow> bool" where
  "library_error ext e =
     ((\<exists>u n. make_grid ext u n = Inl e) \<or> (\<exists>img. cvtColor_RGB2BGR ext img = Inl e) \<or>
      (e = ValueError \<and> (\<exists>u n g. make_grid ext u n = Inr g \<and> dim g \<noteq> 3)))"

text \<open>
  The specification's supported inputs of the codec: a tensor, or a list of
  tensors; anything else has no tensors to convert.
\<close>

definition spec_supported_tensors :: "pyobj \<Rightarrow> tensor list option" where
  "spec_supported_tensors x =
     (case x of
        Tensor t \<Rightarrow> Some [t]
      | PyList xs \<Rightarrow> if list_all is_tensor xs then Some (tensors_of xs) else None
      | Other \<Rightarrow> None)"

text \<open>
  The numbers of dimensions of a tensor for which the dispatch has a branch: 2, 3
  and 4, and 5 when the first dimension has size 1.
\<close>

definition dims_accepted :: "tensor \<Rightarrow> bool" where
  "dims_accepted t = (dim t \<in> {2, 3, 4} \<or> (dim t = 5 \<and> hd (shape t) = 1))"

text \<open>A matrix with a single row, \<open>1 \<times> W\<close>.\<close>

definition single_row :: "tensor \<Rightarrow> bool" where
  "single_row t = (dim t = 2 \<and> hd (shape t) = 1)"

text \<open>
  The specification's report: the attention columns are named after the width
  of the attention vector, four or five; the table holds the three metrics, the
  attention columns and the mask column.
\<close>

definition spec_attention_names :: "nat \<Rightarrow> string list option" where
  "spec_attention_names w =
     (if w = 4 then Some [''t-1 lo'', ''t lo'', ''t+1 lo'', ''t hi'']
      else if w = 5 then Some [''t-1 lo'', ''t lo'', ''t+1 lo'', ''t-1 hi'', ''t+1 hi'']
      else None)"

definition spec_report :: "string list \<Rightarrow> run_state \<Rightarrow> (string \<times> column) list" where
  "spec_report names st =
     [(''psnr'', Floats (psnrs st)), (''aad'', Floats (aads st)), (''ssim'', Reals (ssims st))]
     @ map2 (\<lambda>k name. (name, Reals (map (\<lambda>r. r ! k) (atts st)))) [0..<length names] names
     @ [(''mask'', Ints (masks st))]"

text \<open>
  What holds of the state after \<open>n\<close> completed iterations: every list has
  \<open>n\<close> entries, the attention vectors have one width, and \<^verbatim>\<open>result_dict\<close> is
  what the last iteration has made of it.
\<close>

definition loop_invariant :: "nat \<Rightarrow> run_state \<Rightarrow> bool" where
  "loop_invariant n st =
     (length (psnrs st) = n \<and> length (aads st) = n \<and> length (ssims st) = n \<and>
      length (atts st) = n \<and> length (masks st) = n \<and>
      list_all (\<lambda>r. r \<noteq> [] \<and> length r = length (hd (atts st))) (atts st) \<and>
      result_dict st =
        (if n = 0 then None
         else result_dict (assign_result_dict (atts st) (st\<lparr>result_dict := None\<rparr>))))"

section \<open>Basic facts\<close>

lemma bind_err_Inr [simp]: "bind_err (Inr x) f = f x"
  by (simp add: bind_err_def)

lemma bind_err_Inl [simp]: "bind_err (Inl e) f = Inl e"
  by (simp add: bind_err_def)

lemma dataset_get_in_range:
  "0 \<le> i \<Longrightarrow> i < int (length ds) \<Longrightarrow> dataset_get ds i = Inr (ds ! nat i)"
  by (simp add: dataset_get_def)

lemma wf_dataset_nth:
  assumes "wf_dataset key lsh rsh ds" "0 \<le> i" "i < int (length ds)"
  shows "wf_sample key lsh rsh (ds ! nat i)"
  using assms by (simp add: wf_dataset_def list_all_length)

lemma wf_sample_lq:
  assumes "wf_sample key lsh rsh s"
  obtains l where "s ''lq'' = Some l" "shape l = lsh"
  using assms by (auto simp: wf_sample_def split: option.splits)

lemma wf_sample_hq:
  assumes "wf_sample key lsh rsh s"
  obtains h where "s ''hq'' = Some h" "3 \<le> dim h"
  using assms by (auto simp: wf_sample_def split: option.splits)

lemma wf_sample_ref:
  assumes "wf_sample key lsh rsh s"
  obtains r where "s key = Some r" "shape r = rsh"
  using assms by (auto simp: wf_sample_def split: option.splits)

lemma wf_sample_key:
  assumes "wf_sample key lsh rsh s"
  shows "(if has_key s ''gt'' then ''gt'' else ''image'') = key"
  using assms by (auto simp: wf_sample_def has_key_def split: option.splits)

lemma select0_center:
  assumes "shape l = K # sh" "length sh = 3" "2 \<le> K"
  shows "select0 4 l center_frame_idx = Inr (spec_center_slice l)"
  using assms by (simp add: select0_def center_frame_idx_def spec_center_slice_def)

lemma take_drop_take:
  assumes "2 \<le> K"
  shows "take m (drop m (take (K * m) xs)) = take m (drop m xs)"
proof -
  have "m \<le> K * m - m" using assms
    by (metis add_diff_cancel_left' mult_2 mult_le_mono1 diff_le_mono)
  then show ?thesis by (simp add: drop_take min_def)
qed

lemma select0_batch_center:
  assumes "shape l = K # sh" "length sh = 3" "2 \<le> K"
  shows "bind_err (select0 5 (unsqueeze0 l) 0) (\<lambda>x. select0 4 x center_frame_idx)
           = Inr (spec_center_slice l)"
  using assms
  by (simp add: select0_def unsqueeze0_def center_frame_idx_def spec_center_slice_def numel_def
      take_drop_take)

lemma load_target_wf:
  assumes wf: "wf_sample key lsh rsh (ds ! nat idx)"
    and idx: "0 \<le> idx" "idx < int (length ds)"
  shows "\<exists>l r h. (ds ! nat idx) ''lq'' = Some l \<and> shape l = lsh
            \<and> (ds ! nat idx) key = Some r \<and> (ds ! nat idx) ''hq'' = Some h
            \<and> load_target ds idx
                = Inr [''lq'' \<mapsto> unsqueeze0 l, key \<mapsto> unsqueeze0 r, ''hq'' \<mapsto> unsqueeze0 h]"
proof -
  let ?s = "ds ! nat idx"
  from wf obtain l where l: "?s ''lq'' = Some l" "shape l = lsh" by (rule wf_sample_lq)
  from wf obtain h where h: "?s ''hq'' = Some h" "3 \<le> dim h" by (rule wf_sample_hq)
  from wf obtain r where r: "?s key = Some r" "shape r = rsh" by (rule wf_sample_ref)
  from wf have k: "key = ''gt'' \<or> (key = ''image'' \<and> ?s ''gt'' = None)"
    by (simp add: wf_sample_def)
  have "load_target ds idx
          = Inr [''lq'' \<mapsto> unsqueeze0 l, key \<mapsto> unsqueeze0 r, ''hq'' \<mapsto> unsqueeze0 h]"
    using k
  proof
    assume "key = ''gt''"
    with l h r idx show ?thesis
      by (simp add: load_target_def dataset_get_in_range dict_get_def has_key_def
          none_index3_def Let_def)
  next
    assume "key = ''image'' \<and> ?s ''gt'' = None"
    with l h r idx show ?thesis
      by (simp add: load_target_def dataset_get_in_range dict_get_def has_key_def
          none_index3_def Let_def)
  qed
  with l r h show ?thesis by blast
qed

lemma assemble_lq_wf:
  assumes wf: "wf_dataset key lsh rsh ds"
    and idx: "0 \<le> idx" "idx < int (length ds)" and lo: "1 \<le> lo"
    and v: "v ''lq'' = Some (unsqueeze0 c)" and c: "shape c = lsh"
  shows "\<exists>p n. (ds ! nat (lo_prev_index idx lo)) ''lq'' = Some p
         \<and> (ds ! nat (lo_next_index ds idx lo)) ''lq'' = Some n
         \<and> assemble_lq ds lo idx v = Inr (v(''lq'' \<mapsto> spec_lq_triple p c n))"
proof -
  have pi: "0 \<le> lo_prev_index idx lo" "lo_prev_index idx lo < int (length ds)"
    using idx lo unfolding lo_prev_index_def by linarith+
  have ni: "0 \<le> lo_next_index ds idx lo" "lo_next_index ds idx lo < int (length ds)"
    using idx lo unfolding lo_next_index_def by linarith+
  from wf have sh: "length lsh = 4" "2 \<le> hd lsh" by (simp_all add: wf_dataset_def wf_shapes_def)
  then obtain K sh' where lsh: "lsh = K # sh'" "length sh' = 3" "2 \<le> K"
    by (cases lsh) auto
  from wf_dataset_nth [OF wf pi] obtain p
    where p: "(ds ! nat (lo_prev_index idx lo)) ''lq'' = Some p" "shape p = lsh"
    by (rule wf_sample_lq)
  from wf_dataset_nth [OF wf ni] obtain n
    where n: "(ds ! nat (lo_next_index ds idx lo)) ''lq'' = Some n" "shape n = lsh"
    by (rule wf_sample_lq)
  have sp: "select0 4 p center_frame_idx = Inr (spec_center_slice p)"
    using p lsh by (simp add: select0_center)
  have sn: "select0 4 n center_frame_idx = Inr (spec_center_slice n)"
    using n lsh by (simp add: select0_center)
  have sc: "bind_err (select0 5 (unsqueeze0 c) 0) (\<lambda>x. select0 4 x center_frame_idx)
              = Inr (spec_center_slice c)"
    using c lsh by (simp add: select0_batch_center)
  then obtain c0 where c0: "select0 5 (unsqueeze0 c) 0 = Inr c0"
     "select0 4 c0 center_frame_idx = Inr (spec_center_slice c)"
    by (cases "select0 5 (unsqueeze0 c) 0") simp_all
  have shs: "shape (spec_center_slice p) = sh'" "shape (spec_center_slice c) = sh'"
    "shape (spec_center_slice n) = sh'"
    using p n c lsh by (simp_all add: spec_center_slice_def)
  have "assemble_lq ds lo idx v = Inr (v(''lq'' \<mapsto> spec_lq_triple p c n))"
    using p n v c0 sp sn shs c lsh
    by (simp add: assemble_lq_def dataset_get_in_range [OF pi] dataset_get_in_range [OF ni]
        dict_get_def spec_lq_triple_def unsqueeze0_def numeral_3_eq_3)
  with p n show ?thesis by blast
qed

lemma hi_start_index_eq:
  "0 \<le> idx \<Longrightarrow> 1 \<le> hi \<Longrightarrow> hi_start_index idx hi = Inr (spec_blkStart idx hi)"
  by (simp add: hi_start_index_def floordiv_def spec_blkStart_def
      mult.commute mult.left_commute pos_imp_zdiv_nonneg_iff max_def)

lemma hi_end_index_eq:
  "1 \<le> hi \<Longrightarrow> hi_end_index g idx hi = Inr (min g (spec_blkStart idx hi + 2 * hi))"
  by (simp add: hi_end_index_def floordiv_def spec_blkStart_def algebra_simps)

lemma lo_next_index_clamp:
  "0 \<le> idx \<Longrightarrow> idx < int (length ds) \<Longrightarrow> 1 \<le> lo \<Longrightarrow>
   lo_next_index ds idx lo = spec_clamp (idx + lo) 0 (int (length ds) - 1)"
  unfolding lo_next_index_def spec_clamp_def by linarith

lemma lo_prev_index_clamp:
  "idx < int (length ds) \<Longrightarrow> 1 \<le> lo \<Longrightarrow>
   lo_prev_index idx lo = spec_clamp (idx - lo) 0 (int (length ds) - 1)"
  unfolding lo_prev_index_def spec_clamp_def by linarith

lemma blkStart_bounds:
  assumes "1 \<le> hi"
  shows "(2 * hi) dvd spec_blkStart idx hi"
    and "spec_blkStart idx hi \<le> idx"
    and "idx < spec_blkStart idx hi + 2 * hi"
proof -
  let ?d = "2 * hi"
  have d: "0 < ?d" using assms by simp
  have e: "idx = idx div ?d * ?d + idx mod ?d" by (rule div_mult_mod_eq [symmetric])
  have m: "0 \<le> idx mod ?d" "idx mod ?d < ?d"
    using d by (simp_all only: pos_mod_sign pos_mod_bound)
  show "(2 * hi) dvd spec_blkStart idx hi" by (simp add: spec_blkStart_def)
  show "spec_blkStart idx hi \<le> idx" unfolding spec_blkStart_def using e m by linarith
  show "idx < spec_blkStart idx hi + 2 * hi" unfolding spec_blkStart_def using e m by linarith
qed

lemma blkStart_nonneg: "0 \<le> idx \<Longrightarrow> 1 \<le> hi \<Longrightarrow> 0 \<le> spec_blkStart idx hi"
  by (simp add: spec_blkStart_def pos_imp_zdiv_nonneg_iff)

lemma select0_leading:
  assumes "shape r = rsh" "length rsh = 4" "1 \<le> hd rsh"
  shows "select0 4 r 0 = Inr (spec_leading r)"
  using assms by (cases rsh) (auto simp: select0_def spec_leading_def dim_def)

lemma assemble_hq_wf:
  assumes wf: "wf_dataset key lsh rsh ds"
    and idx: "0 \<le> idx" "idx < int (length ds)" and hi: "1 \<le> hi"
    and e: "0 \<le> min g (spec_blkStart idx hi + 2 * hi)"
           "min g (spec_blkStart idx hi + 2 * hi) < int (length ds)"
  shows "\<exists>a b. (ds ! nat (spec_blkStart idx hi)) key = Some a
         \<and> (ds ! nat (min g (spec_blkStart idx hi + 2 * hi))) key = Some b
         \<and> assemble_hq ds g hi idx v = Inr (v(''hq'' \<mapsto> spec_hq_pair a b))"
proof -
  let ?s = "spec_blkStart idx hi" and ?e = "min g (spec_blkStart idx hi + 2 * hi)"
  have si: "0 \<le> ?s" "?s < int (length ds)"
    using blkStart_nonneg [OF idx(1) hi] blkStart_bounds(2) [OF hi, of idx] idx by linarith+
  note ws = wf_dataset_nth [OF wf si] and we = wf_dataset_nth [OF wf e]
  from ws obtain a where a: "(ds ! nat ?s) key = Some a" "shape a = rsh" by (rule wf_sample_ref)
  from we obtain b where b: "(ds ! nat ?e) key = Some b" "shape b = rsh" by (rule wf_sample_ref)
  from wf have rsh: "length rsh = 3 \<or> (length rsh = 4 \<and> 1 \<le> hd rsh)"
    by (simp add: wf_dataset_def wf_shapes_def)
  have "assemble_hq ds g hi idx v = Inr (v(''hq'' \<mapsto> spec_hq_pair a b))"
    using rsh
  proof
    assume 3: "length rsh = 3"
    then have "spec_leading a = a" "spec_leading b = b"
      using a b by (simp_all add: spec_leading_def dim_def)
    then show ?thesis using 3 a b
      by (simp add: assemble_hq_def hi_start_index_eq [OF idx(1) hi] hi_end_index_eq [OF hi]
          dataset_get_in_range [OF si] dataset_get_in_range [OF e] wf_sample_key [OF ws]
          dict_get_def Let_def spec_hq_pair_def unsqueeze0_def numeral_2_eq_2)
  next
    assume 4: "length rsh = 4 \<and> 1 \<le> hd rsh"
    then have l: "select0 4 a 0 = Inr (spec_leading a)" "select0 4 b 0 = Inr (spec_leading b)"
      using a b by (simp_all add: select0_leading)
    have sh: "shape (spec_leading a) = tl rsh" "shape (spec_leading b) = tl rsh"
      using 4 a b by (simp_all add: spec_leading_def dim_def)
    have ne: "tl rsh \<noteq> []" using 4 by (cases rsh) auto
    show ?thesis using 4 a b l sh ne
      by (simp add: assemble_hq_def hi_start_index_eq [OF idx(1) hi] hi_end_index_eq [OF hi]
          dataset_get_in_range [OF si] dataset_get_in_range [OF e] wf_sample_key [OF ws]
          dict_get_def Let_def spec_hq_pair_def unsqueeze0_def numeral_2_eq_2)
  qed
  with a b show ?thesis by blast
qed

lemma window_assembly_wf:
  assumes wf: "wf_dataset key lsh rsh ds"
    and idx: "0 \<le> idx" "idx < int (length ds)" and lo: "1 \<le> lo" and hi: "1 \<le> hi"
    and e: "0 \<le> min g (spec_blkStart idx hi + 2 * hi)"
           "min g (spec_blkStart idx hi + 2 * hi) < int (length ds)"
  shows "\<exists>w. window_assembly ds g lo hi idx
              = Inr (w, if idx = spec_blkStart idx hi \<or> idx = lo_next_index ds idx lo then 1 else 0)"
proof -
  from load_target_wf [OF wf_dataset_nth [OF wf idx] idx]
  obtain l r h where l: "shape l = lsh"
    and v0: "load_target ds idx
              = Inr [''lq'' \<mapsto> unsqueeze0 l, key \<mapsto> unsqueeze0 r, ''hq'' \<mapsto> unsqueeze0 h]"
    by blast
  let ?v0 = "[''lq'' \<mapsto> unsqueeze0 l, key \<mapsto> unsqueeze0 r, ''hq'' \<mapsto> unsqueeze0 h]"
  from wf have "key = ''gt'' \<or> key = ''image''"
    using wf_dataset_nth [OF wf idx] by (auto simp: wf_sample_def)
  then have "?v0 ''lq'' = Some (unsqueeze0 l)" by auto
  from assemble_lq_wf [where v = ?v0 and c = l, OF wf idx lo this l]
  obtain v1 where v1: "assemble_lq ds lo idx ?v0 = Inr v1" by blast
  from assemble_hq_wf [OF wf idx hi e, of v1]
  obtain v2 where v2: "assemble_hq ds g hi idx v1 = Inr v2" by blast
  show ?thesis
    by (simp add: window_assembly_def v0 v1 v2 boundary_flag_def hi_start_index_eq [OF idx(1) hi])
qed

lemma wf_example: "wf_dataset ''gt'' [2, 1, 1, 1] [1, 1, 1] example_dataset"
  by (simp add: wf_dataset_def wf_shapes_def wf_sample_def example_dataset_def
      example_sample_def dim_def)

lemma length_example: "int (length example_dataset) = 10"
  by (simp add: example_dataset_def)

section \<open>Boundary flag\<close>

text \<open>
  Claim C1. For every target index \<open>idx\<close> with \<open>0 \<le> idx < N\<close>, \<open>loSep \<ge> 1\<close> and
  \<open>hiSep \<ge> 1\<close>, the flag computed for \<open>idx\<close>, which is the flag that a completed
  window assembly hands on to be recorded, is 1 exactly when \<open>idx\<close> is its block
  start \<open>floor(idx / (2*hiSep)) * (2*hiSep)\<close> or equals \<open>clamp(idx + loSep, 0, N-1)\<close>,
  and 0 otherwise.
\<close>

theorem boundary_flag_correct:
  assumes "0 \<le> idx" "idx < int (length dataset)" "1 \<le> loSep" "1 \<le> hiSep"
  shows "boundary_flag dataset loSep hiSep idx
           = Inr (if idx = spec_blkStart idx hiSep
                     \<or> idx = spec_clamp (idx + loSep) 0 (int (length dataset) - 1)
                  then 1 else 0)
         \<and> (\<forall>w flag. window_assembly dataset maxValidHiIndex loSep hiSep idx = Inr (w, flag)
               \<longrightarrow> flag = (if idx = spec_blkStart idx hiSep
                               \<or> idx = spec_clamp (idx + loSep) 0 (int (length dataset) - 1)
                            then 1 else 0))"
proof -
  let ?F = "if idx = spec_blkStart idx hiSep
               \<or> idx = spec_clamp (idx + loSep) 0 (int (length dataset) - 1)
            then 1 else 0 :: int"
  have f: "boundary_flag dataset loSep hiSep idx = Inr ?F"
    using assms
    by (simp add: boundary_flag_def hi_start_index_eq lo_next_index_clamp)
  have "flag = ?F"
    if "window_assembly dataset maxValidHiIndex loSep hiSep idx = Inr (w, flag)" for w flag
    using that unfolding window_assembly_def f
    by (auto simp: bind_err_def split: sum.splits)
  with f show ?thesis by blast
qed

theorem boundary_flag_correct_witness:
  "(\<exists>w. window_assembly example_dataset 9 2 1 9 = Inr (w, 1))
   \<and> boundary_flag example_dataset 2 1 9 = Inr 1
   \<and> (\<exists>w. window_assembly example_dataset 9 1 1 5 = Inr (w, 0))
   \<and> boundary_flag example_dataset 1 1 5 = Inr 0"
proof -
  have a: "\<exists>w. window_assembly example_dataset 9 2 1 9 = Inr (w, 1)"
    using window_assembly_wf [OF wf_example, of 9 2 1 9]
    by (simp add: length_example spec_blkStart_def lo_next_index_def)
  have b: "\<exists>w. window_assembly example_dataset 9 1 1 5 = Inr (w, 0)"
    using window_assembly_wf [OF wf_example, of 5 1 1 9]
    by (simp add: length_example spec_blkStart_def lo_next_index_def)
  show ?thesis
    using a b boundary_flag_correct [of 9 example_dataset 2 1 9]
      boundary_flag_correct [of 5 example_dataset 1 1 9]
    by (simp add: length_example spec_blkStart_def spec_clamp_def)
qed

section \<open>Low-resolution triple\<close>

text \<open>
  Claim C2. For every target index \<open>idx\<close> with \<open>0 \<le> idx < N\<close> and \<open>loSep \<ge> 1\<close>, on
  samples that keep their invariant, the low-resolution entry of the window is
  the \<open>center_frame_idx\<close> slices of the samples at \<open>clamp(idx - loSep, 0, N-1)\<close>,
  \<open>idx\<close> and \<open>clamp(idx + loSep, 0, N-1)\<close>, concatenated in the order previous,
  current, next; for \<open>idx < loSep\<close> the previous slot is fetched at the edge index
  0, and for \<open>idx > N-1-loSep\<close> the next slot is fetched at the edge index \<open>N-1\<close>.
  The scenario \<open>N = 10\<close>, \<open>loSep = 2\<close>, \<open>idx = 9\<close> with the fetch indices
  \<open>(7, 9, 9)\<close> is the first instance below.
\<close>

theorem lq_triple_assembly:
  assumes wf: "wf_dataset key lsh rsh dataset"
    and idx: "0 \<le> idx" "idx < int (length dataset)" and lo: "1 \<le> loSep"
  shows "(\<exists>v0 p c n.
            load_target dataset idx = Inr v0
          \<and> (dataset ! nat (spec_clamp (idx - loSep) 0 (int (length dataset) - 1))) ''lq'' = Some p
          \<and> (dataset ! nat idx) ''lq'' = Some c
          \<and> (dataset ! nat (spec_clamp (idx + loSep) 0 (int (length dataset) - 1))) ''lq'' = Some n
          \<and> assemble_lq dataset loSep idx v0 = Inr (v0(''lq'' \<mapsto> spec_lq_triple p c n)))
       \<and> lo_prev_index idx loSep = spec_clamp (idx - loSep) 0 (int (length dataset) - 1)
       \<and> lo_next_index dataset idx loSep = spec_clamp (idx + loSep) 0 (int (length dataset) - 1)
       \<and> (idx < loSep \<longrightarrow> lo_prev_index idx loSep = 0)
       \<and> (int (length dataset) - 1 - loSep < idx
            \<longrightarrow> lo_next_index dataset idx loSep = int (length dataset) - 1)"
proof -
  note pc = lo_prev_index_clamp [OF idx(2) lo] and nc = lo_next_index_clamp [OF idx lo]
  from load_target_wf [OF wf_dataset_nth [OF wf idx] idx]
  obtain c r h where c: "(dataset ! nat idx) ''lq'' = Some c" "shape c = lsh"
    and v0: "load_target dataset idx
              = Inr [''lq'' \<mapsto> unsqueeze0 c, key \<mapsto> unsqueeze0 r, ''hq'' \<mapsto> unsqueeze0 h]"
    by blast
  let ?v0 = "[''lq'' \<mapsto> unsqueeze0 c, key \<mapsto> unsqueeze0 r, ''hq'' \<mapsto> unsqueeze0 h]"
  have "key = ''gt'' \<or> key = ''image''"
    using wf_dataset_nth [OF wf idx] by (auto simp: wf_sample_def)
  then have "?v0 ''lq'' = Some (unsqueeze0 c)" by auto
  from assemble_lq_wf [where v = ?v0 and c = c, OF wf idx lo this c(2)]
  obtain p n where "(dataset ! nat (lo_prev_index idx loSep)) ''lq'' = Some p"
    "(dataset ! nat (lo_next_index dataset idx loSep)) ''lq'' = Some n"
    "assemble_lq dataset loSep idx ?v0 = Inr (?v0(''lq'' \<mapsto> spec_lq_triple p c n))"
    by blast
  then have 1: "\<exists>v0 p c n.
            load_target dataset idx = Inr v0
          \<and> (dataset ! nat (spec_clamp (idx - loSep) 0 (int (length dataset) - 1))) ''lq'' = Some p
          \<and> (dataset ! nat idx) ''lq'' = Some c
          \<and> (dataset ! nat (spec_clamp (idx + loSep) 0 (int (length dataset) - 1))) ''lq'' = Some n
          \<and> assemble_lq dataset loSep idx v0 = Inr (v0(''lq'' \<mapsto> spec_lq_triple p c n))"
    using v0 c(1) unfolding pc nc by blast
  have 2: "idx < loSep \<longrightarrow> lo_prev_index idx loSep = 0"
    by (simp add: lo_prev_index_def)
  have 3: "int (length dataset) - 1 - loSep < idx
            \<longrightarrow> lo_next_index dataset idx loSep = int (length dataset) - 1"
    by (simp add: lo_next_index_def)
  from 1 2 3 pc nc show ?thesis by blast
qed

theorem lq_triple_assembly_witness:
  "(\<exists>v0. load_target example_dataset 9 = Inr v0
        \<and> assemble_lq example_dataset 2 9 v0
            = Inr (v0(''lq'' \<mapsto> \<lparr>shape = [1, 3, 1, 1, 1], elems = [17, 19, 19]\<rparr>)))
   \<and> (lo_prev_index 9 2, 9, lo_next_index example_dataset 9 2) = (7, 9, 9)
   \<and> (\<exists>v0. load_target example_dataset 5 = Inr v0
        \<and> assemble_lq example_dataset 10 5 v0
            = Inr (v0(''lq'' \<mapsto> \<lparr>shape = [1, 3, 1, 1, 1], elems = [10, 15, 19]\<rparr>)))
   \<and> (lo_prev_index 5 10, 5, lo_next_index example_dataset 5 10) = (0, 5, 9)"
proof -
  have a: "\<exists>v0. load_target example_dataset 9 = Inr v0
        \<and> assemble_lq example_dataset 2 9 v0
            = Inr (v0(''lq'' \<mapsto> \<lparr>shape = [1, 3, 1, 1, 1], elems = [17, 19, 19]\<rparr>))"
    using lq_triple_assembly [OF wf_example, of 9 2]
    by (auto simp add: length_example spec_clamp_def example_dataset_def example_sample_def
        spec_lq_triple_def spec_center_slice_def center_frame_idx_def numel_def)
  have b: "\<exists>v0. load_target example_dataset 5 = Inr v0
        \<and> assemble_lq example_dataset 10 5 v0
            = Inr (v0(''lq'' \<mapsto> \<lparr>shape = [1, 3, 1, 1, 1], elems = [10, 15, 19]\<rparr>))"
    using lq_triple_assembly [OF wf_example, of 5 10]
    by (auto simp add: length_example spec_clamp_def example_dataset_def example_sample_def
        spec_lq_triple_def spec_center_slice_def center_frame_idx_def numel_def)
  have c: "(lo_prev_index 9 2, 9, lo_next_index example_dataset 9 2) = (7, 9, 9)"
    "(lo_prev_index 5 10, 5, lo_next_index example_dataset 5 10) = (0, 5, 9)"
    using lq_triple_assembly [OF wf_example, of 9 2] lq_triple_assembly [OF wf_example, of 5 10]
    by (simp_all add: length_example spec_clamp_def)
  from a b c show ?thesis by blast
qed

section \<open>High-resolution reference pair\<close>

text \<open>
  Claim C3. For every target index \<open>idx \<ge> 0\<close> and \<open>hiSep \<ge> 1\<close>, the block start
  that the code computes is \<open>blkStart = floor(idx / (2*hiSep)) * (2*hiSep)\<close> and the
  block end is \<open>min(maxValidHiIndex, blkStart + 2*hiSep)\<close>; \<open>blkStart\<close> is a
  multiple of \<open>2*hiSep\<close> with \<open>blkStart \<le> idx < blkStart + 2*hiSep\<close>; and on samples
  that keep their invariant, with the block end inside the sequence, the
  reference pair of the window is built from the references fetched at these two
  indices.
\<close>

theorem hq_pair_assembly:
  assumes idx: "0 \<le> idx" and hi: "1 \<le> hiSep"
  shows "hi_start_index idx hiSep = Inr (spec_blkStart idx hiSep)
       \<and> hi_end_index maxValidHiIndex idx hiSep
           = Inr (min maxValidHiIndex (spec_blkStart idx hiSep + 2 * hiSep))
       \<and> (2 * hiSep) dvd spec_blkStart idx hiSep
       \<and> spec_blkStart idx hiSep \<le> idx
       \<and> idx < spec_blkStart idx hiSep + 2 * hiSep
       \<and> (wf_dataset key lsh rsh dataset \<and> idx < int (length dataset)
           \<and> 0 \<le> min maxValidHiIndex (spec_blkStart idx hiSep + 2 * hiSep)
           \<and> min maxValidHiIndex (spec_blkStart idx hiSep + 2 * hiSep) < int (length dataset)
           \<longrightarrow> (\<exists>a b.
                  (dataset ! nat (spec_blkStart idx hiSep)) key = Some a
                \<and> (dataset ! nat (min maxValidHiIndex (spec_blkStart idx hiSep + 2 * hiSep))) key
                    = Some b
                \<and> assemble_hq dataset maxValidHiIndex hiSep idx val_data
                    = Inr (val_data(''hq'' \<mapsto> spec_hq_pair a b))))"
  using hi_start_index_eq [OF idx hi] hi_end_index_eq [OF hi] blkStart_bounds [OF hi]
    assemble_hq_wf [OF _ idx _ hi]
  by blast

theorem hq_pair_assembly_witness:
  "hi_start_index 5 2 = Inr 4 \<and> hi_end_index 9 5 2 = Inr 8
   \<and> (4::int) dvd 4 \<and> (4::int) \<le> 5 \<and> (5::int) < 4 + 4
   \<and> assemble_hq example_dataset 9 2 5 (example_sample 5)
       = Inr ((example_sample 5)(''hq'' \<mapsto> \<lparr>shape = [1, 2, 1, 1, 1], elems = [24, 28]\<rparr>))
   \<and> hi_start_index 0 1 = Inr 0 \<and> hi_end_index 9 0 1 = Inr (min 9 2)"
proof -
  have s: "spec_blkStart 5 2 = 4" "spec_blkStart 0 1 = 0" by (simp_all add: spec_blkStart_def)
  have a: "assemble_hq example_dataset 9 2 5 (example_sample 5)
       = Inr ((example_sample 5)(''hq'' \<mapsto> \<lparr>shape = [1, 2, 1, 1, 1], elems = [24, 28]\<rparr>))"
    using hq_pair_assembly [of 5 2 9 "''gt''" "[2, 1, 1, 1]" "[1, 1, 1]" example_dataset
        "example_sample 5"] wf_example
    by (auto simp add: s length_example example_dataset_def example_sample_def
        spec_hq_pair_def spec_leading_def dim_def)
  show ?thesis
    using a hq_pair_assembly [of 5 2 9] hq_pair_assembly [of 0 1 9]
    by (simp add: s)
qed

section \<open>Which step can raise an out-of-bounds frame-source access\<close>

lemma bind_err_eq_Inl:
  "bind_err m f = Inl e \<longleftrightarrow> m = Inl e \<or> (\<exists>x. m = Inr x \<and> f x = Inl e)"
  by (cases m) simp_all

lemma dict_get_no_frame_error [simp]: "dict_get d k \<noteq> Inl (IndexError frame_source)"
  by (simp add: dict_get_def split: option.splits)

lemma select0_no_frame_error [simp]: "select0 k t i \<noteq> Inl (IndexError frame_source)"
  by (simp add: select0_def frame_source_def of_tensor_def Let_def split: list.splits)

lemma none_index3_no_frame_error [simp]: "none_index3 t \<noteq> Inl (IndexError frame_source)"
  by (simp add: none_index3_def frame_source_def of_tensor_def)

lemma cat0_no_frame_error [simp]: "cat0 ts \<noteq> Inl (IndexError frame_source)"
  by (induction ts rule: cat0.induct) (auto split: sum.splits)

lemma hi_start_index_no_frame_error [simp]:
  "hi_start_index idx hi \<noteq> Inl (IndexError frame_source)"
  by (simp add: hi_start_index_def floordiv_def)

lemma hi_end_index_no_frame_error [simp]:
  "hi_end_index g idx hi \<noteq> Inl (IndexError frame_source)"
  by (simp add: hi_end_index_def floordiv_def)

lemma load_target_no_frame_error:
  assumes "0 \<le> idx" "idx < int (length ds)"
  shows "load_target ds idx \<noteq> Inl (IndexError frame_source)"
  using assms
  by (simp add: load_target_def dataset_get_in_range Let_def bind_err_eq_Inl)

lemma assemble_lq_no_frame_error:
  assumes "0 \<le> idx" "idx < int (length ds)" "1 \<le> lo"
  shows "assemble_lq ds lo idx v \<noteq> Inl (IndexError frame_source)"
proof -
  have pi: "0 \<le> lo_prev_index idx lo" "lo_prev_index idx lo < int (length ds)"
    using assms unfolding lo_prev_index_def by linarith+
  have ni: "0 \<le> lo_next_index ds idx lo" "lo_next_index ds idx lo < int (length ds)"
    using assms unfolding lo_next_index_def by linarith+
  show ?thesis
    by (simp add: assemble_lq_def dataset_get_in_range [OF pi] dataset_get_in_range [OF ni]
        bind_err_eq_Inl)
qed

lemma assemble_hq_no_frame_error:
  assumes idx: "0 \<le> idx" "idx < int (length ds)" and hi: "1 \<le> hi"
    and g: "0 \<le> g" "g < int (length ds)"
  shows "assemble_hq ds g hi idx v \<noteq> Inl (IndexError frame_source)"
proof -
  let ?s = "spec_blkStart idx hi" and ?e = "min g (spec_blkStart idx hi + 2 * hi)"
  have si: "0 \<le> ?s" "?s < int (length ds)"
    using blkStart_nonneg [OF idx(1) hi] blkStart_bounds(2) [OF hi, of idx] idx by linarith+
  have ei: "0 \<le> ?e" "?e < int (length ds)"
    using si hi g by linarith+
  show ?thesis
    by (simp add: assemble_hq_def hi_start_index_eq [OF idx(1) hi] hi_end_index_eq [OF hi]
        dataset_get_in_range [OF si] dataset_get_in_range [OF ei] Let_def bind_err_eq_Inl)
qed

lemma boundary_flag_no_frame_error [simp]:
  "boundary_flag ds lo hi idx \<noteq> Inl (IndexError frame_source)"
  by (simp add: boundary_flag_def bind_err_eq_Inl)

lemma window_assembly_no_frame_error:
  assumes idx: "0 \<le> idx" "idx < int (length ds)" and lo: "1 \<le> lo" and hi: "1 \<le> hi"
    and g: "0 \<le> g" "g < int (length ds)"
  shows "window_assembly ds g lo hi idx \<noteq> Inl (IndexError frame_source)"
  by (simp add: window_assembly_def bind_err_eq_Inl load_target_no_frame_error [OF idx]
      assemble_lq_no_frame_error [OF idx lo] assemble_hq_no_frame_error [OF idx hi g])

section \<open>Bounds of the frame-source lookups\<close>

text \<open>
  Claim C4, as amended. For every target index \<open>idx\<close> with \<open>0 \<le> idx < N\<close>,
  \<open>loSep \<ge> 1\<close> and \<open>hiSep \<ge> 1\<close>, the lookups at \<open>idx\<close>, at the previous and the
  next low-resolution neighbour and at the block start use indices within
  \<open>[0, N-1]\<close>. The block end is clamped to \<open>maxValidHiIndex\<close>, not to \<open>N-1\<close>: it is
  \<open>min(maxValidHiIndex, blkStart + 2*hiSep)\<close>, and when
  \<open>0 \<le> maxValidHiIndex \<le> N-1\<close> it lies within \<open>[0, N-1]\<close> too and the window
  assembly cannot fail with an out-of-bounds frame-source access.
\<close>

theorem frame_lookups_in_bounds:
  assumes idx: "0 \<le> idx" "idx < int (length dataset)"
    and lo: "1 \<le> loSep" and hi: "1 \<le> hiSep"
  shows "0 \<le> lo_prev_index idx loSep \<and> lo_prev_index idx loSep \<le> int (length dataset) - 1
       \<and> 0 \<le> lo_next_index dataset idx loSep
       \<and> lo_next_index dataset idx loSep \<le> int (length dataset) - 1
       \<and> (\<exists>s. hi_start_index idx hiSep = Inr s \<and> 0 \<le> s \<and> s \<le> int (length dataset) - 1)
       \<and> (\<exists>e. hi_end_index maxValidHiIndex idx hiSep = Inr e
              \<and> e = min maxValidHiIndex (spec_blkStart idx hiSep + 2 * hiSep)
              \<and> (0 \<le> maxValidHiIndex \<and> maxValidHiIndex \<le> int (length dataset) - 1
                   \<longrightarrow> 0 \<le> e \<and> e \<le> int (length dataset) - 1))
       \<and> (0 \<le> maxValidHiIndex \<and> maxValidHiIndex \<le> int (length dataset) - 1
            \<longrightarrow> window_assembly dataset maxValidHiIndex loSep hiSep idx
                  \<noteq> Inl (IndexError frame_source))"
proof -
  have p: "0 \<le> lo_prev_index idx loSep \<and> lo_prev_index idx loSep \<le> int (length dataset) - 1"
    using idx lo unfolding lo_prev_index_def by linarith
  have n: "0 \<le> lo_next_index dataset idx loSep
           \<and> lo_next_index dataset idx loSep \<le> int (length dataset) - 1"
    using idx lo unfolding lo_next_index_def by linarith
  have s0: "0 \<le> spec_blkStart idx hiSep" "spec_blkStart idx hiSep \<le> int (length dataset) - 1"
    using blkStart_nonneg [OF idx(1) hi] blkStart_bounds(2) [OF hi, of idx] idx by linarith+
  have s: "\<exists>s. hi_start_index idx hiSep = Inr s \<and> 0 \<le> s \<and> s \<le> int (length dataset) - 1"
    using hi_start_index_eq [OF idx(1) hi] s0 by simp
  have e: "\<exists>e. hi_end_index maxValidHiIndex idx hiSep = Inr e
              \<and> e = min maxValidHiIndex (spec_blkStart idx hiSep + 2 * hiSep)
              \<and> (0 \<le> maxValidHiIndex \<and> maxValidHiIndex \<le> int (length dataset) - 1
                   \<longrightarrow> 0 \<le> e \<and> e \<le> int (length dataset) - 1)"
    using hi_end_index_eq [OF hi] s0 hi by auto
  have w: "0 \<le> maxValidHiIndex \<and> maxValidHiIndex \<le> int (length dataset) - 1
            \<longrightarrow> window_assembly dataset maxValidHiIndex loSep hiSep idx
                  \<noteq> Inl (IndexError frame_source)"
    using window_assembly_no_frame_error [OF idx lo hi] by simp
  from p n s e w show ?thesis by blast
qed

theorem frame_lookups_in_bounds_witness:
  "(0::int) \<le> lo_prev_index 9 1 \<and> lo_prev_index 9 1 \<le> 9
   \<and> 0 \<le> lo_next_index example_dataset 9 1 \<and> lo_next_index example_dataset 9 1 \<le> 9
   \<and> hi_start_index 9 1 = Inr 8
   \<and> hi_end_index 9 9 1 = Inr 9
   \<and> window_assembly example_dataset 9 1 1 9 \<noteq> Inl (IndexError frame_source)"
  using frame_lookups_in_bounds [of 9 example_dataset 1 1 9]
  by (simp add: length_example spec_blkStart_def hi_start_index_def floordiv_def)

theorem frame_lookups_counterexample:
  "wf_dataset ''gt'' [2, 1, 1, 1] [1, 1, 1] example_dataset
   \<and> int (length example_dataset) = 10
   \<and> hi_end_index 10 9 1 = Inr 10
   \<and> dataset_get example_dataset 10 = Inl (IndexError frame_source)
   \<and> window_assembly example_dataset 10 1 1 9 = Inl (IndexError frame_source)"
proof -
  have l: "load_target example_dataset 9 =
     Inr [''lq'' \<mapsto> \<lparr>shape = [1, 2, 1, 1, 1], elems = [9, 19]\<rparr>,
          ''gt'' \<mapsto> \<lparr>shape = [1, 1, 1, 1], elems = [29]\<rparr>,
          ''hq'' \<mapsto> \<lparr>shape = [1, 1, 1, 1], elems = [39]\<rparr>]"
    by (simp add: load_target_def example_dataset_def example_sample_def dataset_get_def
        dict_get_def has_key_def unsqueeze0_def none_index3_def dim_def Let_def)
  obtain v1 where v1: "assemble_lq example_dataset 1 9
       [''lq'' \<mapsto> \<lparr>shape = [1, 2, 1, 1, 1], elems = [9, 19]\<rparr>,
        ''gt'' \<mapsto> \<lparr>shape = [1, 1, 1, 1], elems = [29]\<rparr>,
        ''hq'' \<mapsto> \<lparr>shape = [1, 1, 1, 1], elems = [39]\<rparr>] = Inr v1"
    by (simp add: assemble_lq_def example_dataset_def example_sample_def dataset_get_def
        dict_get_def lo_prev_index_def lo_next_index_def select0_def center_frame_idx_def
        unsqueeze0_def numel_def Let_def)
  have e: "hi_end_index 10 9 1 = Inr 10"
    by (simp add: hi_end_index_def floordiv_def)
  have d: "dataset_get example_dataset 10 = Inl (IndexError frame_source)"
    by (simp add: dataset_get_def example_dataset_def)
  have s: "dataset_get example_dataset 8 = Inr (example_sample 8)"
    by (simp add: dataset_get_def example_dataset_def)
  have h: "assemble_hq example_dataset 10 1 9 v1 = Inl (IndexError frame_source)"
    by (simp add: assemble_hq_def hi_start_index_def floordiv_def e d s
        example_sample_def dict_get_def has_key_def Let_def)
  have w: "window_assembly example_dataset 10 1 1 9 = Inl (IndexError frame_source)"
    unfolding window_assembly_def l bind_err_Inr v1 h bind_err_Inl by (rule refl)
  from wf_example length_example e d w show ?thesis by blast
qed

section \<open>Missing reference\<close>

text \<open>
  Claim C7. When the sample at the target index has neither a \<^verbatim>\<open>'gt'\<close> nor
  an \<^verbatim>\<open>'image'\<close> entry, the window assembly for that index fails: the lookup
  of the missing reference raises \<^verbatim>\<open>KeyError('image')\<close>, which is the code's
  form of the missing-reference error (a sample without \<^verbatim>\<open>'lq'\<close> fails on that
  key before).
\<close>

theorem missing_reference_fails:
  assumes "0 \<le> idx" "idx < int (length dataset)"
    and "\<not> has_key (dataset ! nat idx) ''gt''" "\<not> has_key (dataset ! nat idx) ''image''"
  shows "window_assembly dataset maxValidHiIndex loSep hiSep idx
           = Inl (KeyError (if has_key (dataset ! nat idx) ''lq'' then ''image'' else ''lq''))"
  using assms
  by (auto simp add: window_assembly_def load_target_def dataset_get_in_range dict_get_def
      has_key_def Let_def)

theorem missing_reference_fails_witness:
  "window_assembly
     [example_sample 0, [''lq'' \<mapsto> \<lparr>shape = [2, 1, 1, 1], elems = [1, 2]\<rparr>,
                         ''hq'' \<mapsto> \<lparr>shape = [1, 1, 1], elems = [3]\<rparr>]] 1 1 1 1
     = Inl (KeyError ''image'')"
  using missing_reference_fails
    [of 1 "[example_sample 0, [''lq'' \<mapsto> \<lparr>shape = [2, 1, 1, 1], elems = [1, 2]\<rparr>,
                               ''hq'' \<mapsto> \<lparr>shape = [1, 1, 1], elems = [3]\<rparr>]]" 1 1 1]
  by (simp add: has_key_def)

section \<open>Dimensionality dispatch of the codec\<close>

lemma int_sqrt_eq:
  assumes "k * k \<le> n" "n < (k + 1) * (k + 1)"
  shows "int_sqrt n = k"
proof -
  have "real k * real k \<le> real n"
    using assms(1) by (metis of_nat_le_iff of_nat_mult)
  then have a: "real k \<le> sqrt (real n)"
    by (simp add: real_le_rsqrt power2_eq_square)
  have "real n < real (k + 1) * real (k + 1)"
    using assms(2) by (metis of_nat_less_iff of_nat_mult)
  then have b: "sqrt (real n) < real k + 1"
    by (intro real_less_lsqrt) (simp_all add: power2_eq_square add.commute)
  have "\<lfloor>sqrt (real n)\<rfloor> = int k"
    using a b by (intro floor_unique) simp_all
  then show ?thesis by (simp add: int_sqrt_def)
qed

lemma int_sqrt_0: "int_sqrt 0 = 0"
  by (simp add: int_sqrt_def)

lemma int_sqrt_1: "int_sqrt 1 = 1"
  by (rule int_sqrt_eq) simp_all

lemma int_sqrt_2: "int_sqrt 2 = 1"
  by (rule int_sqrt_eq) simp_all

lemma ceil_sqrt_2: "\<lceil>sqrt 2\<rceil> = 2"
proof -
  have "1 < sqrt 2" by simp
  moreover have "sqrt 2 \<le> 2" by (rule real_le_lsqrt) simp_all
  ultimately show ?thesis by (intro ceiling_unique) simp_all
qed

lemma upt_small: "[0..<1] = [0]" "[0..<2] = [0, 1]" "[0..<3] = [0, 1, 2]"
  by (simp_all add: upt_rec)

lemma shape_prepare [simp]: "shape (prepare mm t) = shape (squeeze0 t)"
  by (simp add: prepare_def normalize_def clamp_tensor_def)

lemma dim_prepare_squeeze [simp]: "dim (prepare mm t) = dim (squeeze0 t)"
  by (simp add: dim_def)

lemma shape_squeeze0:
  "shape (squeeze0 t) = (if shape t \<noteq> [] \<and> hd (shape t) = 1 then tl (shape t) else shape t)"
  by (simp add: squeeze0_def split: list.splits)

lemma shape_cast_output [simp]: "shape (cast_output ty u) = shape u"
  by (cases ty) (simp_all add: cast_output_def astype_def)

lemma transpose120_3d:
  assumes "shape t = [c, h, w]"
  shows "\<exists>img. transpose120 t = Inr img \<and> shape img = [h, w, c]"
  using assms by (simp add: transpose120_def)

lemma transpose120_error:
  "transpose120 t = Inl e \<Longrightarrow> e = ValueError \<and> dim t \<noteq> 3"
  by (auto simp: transpose120_def dim_def split: list.splits)

lemma length3E:
  assumes "length xs = 3"
  obtains a b c where "xs = [a, b, c]"
  using assms by (cases xs; cases "tl xs"; cases "tl (tl xs)") auto

lemma to_image_4d:
  assumes "dim t = 4"
  shows "to_image ext rgb t =
           bind_err (make_grid ext t (int_sqrt (hd (shape t)))) (\<lambda>grid.
           bind_err (transpose120 grid) (\<lambda>img.
           if rgb then cvtColor_RGB2BGR ext img else Inr img))"
  using assms by (simp add: to_image_def)

lemma to_image_3d:
  assumes "dim t = 3"
  shows "\<exists>img. transpose120 t = Inr img
             \<and> shape img = [shape t ! 1, shape t ! 2, hd (shape t)]
             \<and> to_image ext rgb t =
                 (if shape img ! 2 = 1 then Inr (np_squeeze2 img)
                  else if rgb then cvtColor_RGB2BGR ext img else Inr img)"
proof -
  from assms obtain c h w where s: "shape t = [c, h, w]"
    unfolding dim_def by (rule length3E)
  from transpose120_3d [OF s] obtain img
    where i: "transpose120 t = Inr img" "shape img = [h, w, c]" by blast
  then show ?thesis using assms s by (simp add: to_image_def)
qed

lemma to_image_2d: "dim t = 2 \<Longrightarrow> to_image ext rgb t = Inr t"
  by (simp add: to_image_def)

lemma to_image_other:
  "dim t \<noteq> 4 \<Longrightarrow> dim t \<noteq> 3 \<Longrightarrow> dim t \<noteq> 2 \<Longrightarrow> to_image ext rgb t = Inl TypeError"
  by (simp add: to_image_def)

lemma to_image_error:
  assumes "to_image ext rgb t = Inl e"
  shows "(e = TypeError \<and> dim t \<notin> {2, 3, 4}) \<or> library_error ext e"
proof -
  consider (4) "dim t = 4" | (3) "dim t = 3" | (2) "dim t = 2" | (other) "dim t \<notin> {2, 3, 4}"
    by auto
  then show ?thesis
  proof cases
    case 4
    show ?thesis
    proof (cases "make_grid ext t (int_sqrt (hd (shape t)))")
      case (Inl e')
      with assms 4 have "e' = e" by (simp add: to_image_4d)
      with Inl show ?thesis by (auto simp: library_error_def)
    next
      case (Inr g)
      show ?thesis
      proof (cases "transpose120 g")
        case (Inl e')
        with assms 4 Inr have "e' = e" by (simp add: to_image_4d)
        with Inl transpose120_error [of g e'] Inr show ?thesis
          by (auto simp: library_error_def)
      next
        case (Inr img)
        with assms 4 \<open>make_grid ext t (int_sqrt (hd (shape t))) = Inr g\<close>
        have "cvtColor_RGB2BGR ext img = Inl e"
          by (simp add: to_image_4d split: if_splits)
        then show ?thesis by (auto simp: library_error_def)
      qed
    qed
  next
    case 3
    from to_image_3d [OF 3, of ext rgb] assms
    obtain img where "cvtColor_RGB2BGR ext img = Inl e"
      by (auto split: if_splits)
    then show ?thesis by (auto simp: library_error_def)
  next
    case 2
    with assms show ?thesis by (simp add: to_image_2d)
  next
    case other
    with assms show ?thesis by (simp add: to_image_def)
  qed
qed

lemma convert_one_error:
  assumes "convert_one ext rgb ty mm t = Inl e"
  shows "(e = TypeError \<and> dim (squeeze0 t) \<notin> {2, 3, 4}) \<or> library_error ext e"
proof -
  from assms have "to_image ext rgb (prepare mm t) = Inl e"
    by (cases "to_image ext rgb (prepare mm t)") (simp_all add: convert_one_def)
  from to_image_error [OF this] show ?thesis by simp
qed

lemma convert_one_type_error:
  assumes "dim (squeeze0 t) \<notin> {2, 3, 4}"
  shows "convert_one ext rgb ty mm t = Inl TypeError"
  using assms by (simp add: convert_one_def to_image_other)

lemma accepted_iff:
  assumes "\<not> single_row t"
  shows "dim (squeeze0 t) \<in> {2, 3, 4} \<longleftrightarrow> dims_accepted t"
proof (cases "shape t")
  case Nil
  then show ?thesis by (simp add: dims_accepted_def dim_def squeeze0_def)
next
  case (Cons d ds)
  with assms show ?thesis
    by (auto simp: dims_accepted_def single_row_def dim_def squeeze0_def)
qed

lemma tensor2img_Tensor:
  "tensor2img ext (Tensor t) rgb ty mm
     = bind_err (convert_one ext rgb ty mm t) (\<lambda>r. Inr (Single r))"
  by (cases "convert_one ext rgb ty mm t") (simp_all add: tensor2img_def wrap_result_def)

lemma tensor2img_supported:
  "tensor2img ext x rgb ty mm =
     (case spec_supported_tensors x of
        None \<Rightarrow> Inl TypeError
      | Some ts \<Rightarrow> bind_err (convert_all ext rgb ty mm ts) (\<lambda>rs. Inr (wrap_result rs)))"
  by (cases x) (simp_all add: tensor2img_def spec_supported_tensors_def)

lemma convert_all_error:
  assumes "convert_all ext rgb ty mm ts = Inl e"
  shows "e = TypeError \<or> library_error ext e"
  using assms
proof (induction ts)
  case Nil
  then show ?case by simp
next
  case (Cons t ts)
  show ?case
  proof (cases "convert_one ext rgb ty mm t")
    case (Inl e')
    with Cons.prems have "e' = e" by simp
    with Inl convert_one_error [of ext rgb ty mm t e] show ?thesis by auto
  next
    case (Inr r)
    with Cons.prems have "convert_all ext rgb ty mm ts = Inl e"
      by (cases "convert_all ext rgb ty mm ts") simp_all
    with Cons.IH show ?thesis by simp
  qed
qed

lemma convert_all_type_error:
  assumes lib: "\<not> library_error ext TypeError"
  shows "convert_all ext rgb ty mm ts = Inl TypeError \<longleftrightarrow>
           (\<exists>us t vs. ts = us @ t # vs
              \<and> list_all (\<lambda>u. \<exists>r. convert_one ext rgb ty mm u = Inr r) us
              \<and> dim (squeeze0 t) \<notin> {2, 3, 4})"
proof (induction ts)
  case Nil
  show ?case by simp
next
  case (Cons t ts)
  show ?case
  proof (cases "convert_one ext rgb ty mm t")
    case (Inl e)
    show ?thesis
    proof (cases "e = TypeError")
      case True
      with Inl lib convert_one_error [of ext rgb ty mm t e]
      have bad: "dim (squeeze0 t) \<notin> {2, 3, 4}" by auto
      have "t # ts = [] @ t # ts \<and> list_all (\<lambda>u. \<exists>r. convert_one ext rgb ty mm u = Inr r) []
              \<and> dim (squeeze0 t) \<notin> {2, 3, 4}"
        using bad by simp
      then have "\<exists>us t' vs. t # ts = us @ t' # vs
              \<and> list_all (\<lambda>u. \<exists>r. convert_one ext rgb ty mm u = Inr r) us
              \<and> dim (squeeze0 t') \<notin> {2, 3, 4}" by blast
      with Inl True show ?thesis by simp
    next
      case False
      have "\<not> (\<exists>us t' vs. t # ts = us @ t' # vs
              \<and> list_all (\<lambda>u. \<exists>r. convert_one ext rgb ty mm u = Inr r) us
              \<and> dim (squeeze0 t') \<notin> {2, 3, 4})"
      proof
        assume "\<exists>us t' vs. t # ts = us @ t' # vs
              \<and> list_all (\<lambda>u. \<exists>r. convert_one ext rgb ty mm u = Inr r) us
              \<and> dim (squeeze0 t') \<notin> {2, 3, 4}"
        then obtain us t' vs where e: "t # ts = us @ t' # vs"
          and a: "list_all (\<lambda>u. \<exists>r. convert_one ext rgb ty mm u = Inr r) us"
          and b: "dim (squeeze0 t') \<notin> {2, 3, 4}" by blast
        show False
        proof (cases us)
          case Nil
          with e have "t' = t" by simp
          with b convert_one_type_error [of t ext rgb ty mm] Inl False show False by simp
        next
          case (Cons u us')
          with e have "u = t" by simp
          with a Cons Inl show False by simp
        qed
      qed
      with Inl False show ?thesis by simp
    qed
  next
    case (Inr r)
    have 1: "convert_all ext rgb ty mm (t # ts) = Inl TypeError
               \<longleftrightarrow> convert_all ext rgb ty mm ts = Inl TypeError"
      using Inr by (cases "convert_all ext rgb ty mm ts") simp_all
    have ok: "dim (squeeze0 t) \<in> {2, 3, 4}"
      using convert_one_type_error [of t ext rgb ty mm] Inr by auto
    have 2: "(\<exists>us t' vs. t # ts = us @ t' # vs
              \<and> list_all (\<lambda>u. \<exists>r. convert_one ext rgb ty mm u = Inr r) us
              \<and> dim (squeeze0 t') \<notin> {2, 3, 4})
          \<longleftrightarrow> (\<exists>us t' vs. ts = us @ t' # vs
              \<and> list_all (\<lambda>u. \<exists>r. convert_one ext rgb ty mm u = Inr r) us
              \<and> dim (squeeze0 t') \<notin> {2, 3, 4})" (is "?L \<longleftrightarrow> ?R")
    proof
      assume ?L
      then obtain us t' vs where e: "t # ts = us @ t' # vs"
        and a: "list_all (\<lambda>u. \<exists>r. convert_one ext rgb ty mm u = Inr r) us"
        and b: "dim (squeeze0 t') \<notin> {2, 3, 4}" by blast
      show ?R
      proof (cases us)
        case Nil
        with e b ok show ?thesis by simp
      next
        case (Cons u us')
        with e a have "ts = us' @ t' # vs"
          "list_all (\<lambda>u. \<exists>r. convert_one ext rgb ty mm u = Inr r) us'" by simp_all
        with b show ?thesis by blast
      qed
    next
      assume ?R
      then obtain us t' vs where e: "ts = us @ t' # vs"
        and a: "list_all (\<lambda>u. \<exists>r. convert_one ext rgb ty mm u = Inr r) us"
        and b: "dim (squeeze0 t') \<notin> {2, 3, 4}" by blast
      have "t # ts = (t # us) @ t' # vs"
        "list_all (\<lambda>u. \<exists>r. convert_one ext rgb ty mm u = Inr r) (t # us)"
        using e a Inr by simp_all
      with b show ?L by blast
    qed
    from 1 2 Cons.IH show ?thesis by simp
  qed
qed

lemma example_ext_library [simp]:
  "make_grid example_ext = tv_make_grid" "cvtColor_RGB2BGR example_ext = cv_rgb2bgr"
  by (simp_all add: example_ext_def)

lemma tv_make_grid_error:
  "tv_make_grid t n = Inl e \<Longrightarrow> e = ZeroDivisionError \<or> e = ValueError"
  by (auto simp: tv_make_grid_def Let_def split: list.splits if_splits)

lemma tv_make_grid_dim: "tv_make_grid t n = Inr g \<Longrightarrow> dim g = 3"
  by (auto simp: tv_make_grid_def Let_def dim_def split: list.splits if_splits)

lemma cv_rgb2bgr_error: "cv_rgb2bgr img = Inl e \<Longrightarrow> e = CvError"
  by (auto simp: cv_rgb2bgr_def split: list.splits if_splits)

lemma library_error_example:
  "library_error example_ext e \<Longrightarrow> e = ZeroDivisionError \<or> e = ValueError \<or> e = CvError"
  by (auto simp: library_error_def dest: tv_make_grid_error cv_rgb2bgr_error tv_make_grid_dim)

lemma no_type_error_example: "\<not> library_error example_ext TypeError"
  using library_error_example [of TypeError] by auto

lemma tv_make_grid_shape:
  assumes "shape t = [b, c, h, w]" "b \<noteq> 1" "0 < min nrow b"
  shows "\<exists>g. tv_make_grid t nrow = Inr g
            \<and> shape g = [if c = 1 then 3 else c,
                          (h + 2) * ((b + min nrow b - 1) div min nrow b) + 2,
                          (w + 2) * min nrow b + 2]"
  using assms by (simp add: tv_make_grid_def Let_def)

lemma cv_rgb2bgr_shape:
  assumes "shape img = [h, w, c]" "c = 3 \<or> c = 4" "0 < h" "0 < w"
  shows "\<exists>r. cv_rgb2bgr img = Inr r \<and> shape r = [h, w, 3]"
  using assms by (auto simp add: cv_rgb2bgr_def)

text \<open>
  Claim C10, as amended. Every input tensor loses a leading dimension of size 1
  before the dispatch: a tensor of four dimensions whose first is 1 is converted
  by the branch for three dimensions, without a grid, and a tensor of five
  dimensions whose first is 1 is converted by the branch for four dimensions.
  The dispatch has no \<^verbatim>\<open>TypeError\<close> for them; what \<^verbatim>\<open>make_grid\<close>, the
  transposition of its grid or the colour conversion raise is passed on, and
  nothing else fails.
\<close>

theorem leading_unit_dimension_removed:
  "(shape t \<noteq> [] \<and> hd (shape t) = 1 \<longrightarrow> shape (prepare min_max t) = tl (shape t))
   \<and> tensor2img ext (Tensor t) rgb2bgr ty min_max
       = bind_err (convert_one ext rgb2bgr ty min_max t) (\<lambda>r. Inr (Single r))
   \<and> (dim t = 4 \<and> hd (shape t) = 1 \<longrightarrow>
        (\<exists>img. transpose120 (prepare min_max t) = Inr img
           \<and> convert_one ext rgb2bgr ty min_max t
               = (if shape img ! 2 = 1 then Inr (cast_output ty (np_squeeze2 img))
                  else bind_err (if rgb2bgr then cvtColor_RGB2BGR ext img else Inr img)
                         (\<lambda>i. Inr (cast_output ty i))))
        \<and> (\<forall>e. convert_one ext rgb2bgr ty min_max t = Inl e \<longrightarrow> library_error ext e))
   \<and> (dim t = 5 \<and> hd (shape t) = 1 \<longrightarrow>
        convert_one ext rgb2bgr ty min_max t
          = bind_err (make_grid ext (prepare min_max t) (int_sqrt (hd (tl (shape t))))) (\<lambda>grid.
            bind_err (transpose120 grid) (\<lambda>img.
            bind_err (if rgb2bgr then cvtColor_RGB2BGR ext img else Inr img)
              (\<lambda>i. Inr (cast_output ty i))))
        \<and> (\<forall>e. convert_one ext rgb2bgr ty min_max t = Inl e \<longrightarrow> library_error ext e))"
proof -
  have a: "shape t \<noteq> [] \<and> hd (shape t) = 1 \<longrightarrow> shape (prepare min_max t) = tl (shape t)"
    by (simp add: shape_squeeze0)
  have b: "(\<exists>img. transpose120 (prepare min_max t) = Inr img
           \<and> convert_one ext rgb2bgr ty min_max t
               = (if shape img ! 2 = 1 then Inr (cast_output ty (np_squeeze2 img))
                  else bind_err (if rgb2bgr then cvtColor_RGB2BGR ext img else Inr img)
                         (\<lambda>i. Inr (cast_output ty i))))
        \<and> (\<forall>e. convert_one ext rgb2bgr ty min_max t = Inl e \<longrightarrow> library_error ext e)"
    if "dim t = 4" "hd (shape t) = 1"
  proof -
    from that have d: "dim (squeeze0 t) = 3" by (auto simp: dim_def shape_squeeze0)
    then have "dim (prepare min_max t) = 3" by simp
    from to_image_3d [OF this, of ext rgb2bgr]
    have 1: "\<exists>img. transpose120 (prepare min_max t) = Inr img
           \<and> convert_one ext rgb2bgr ty min_max t
               = (if shape img ! 2 = 1 then Inr (cast_output ty (np_squeeze2 img))
                  else bind_err (if rgb2bgr then cvtColor_RGB2BGR ext img else Inr img)
                         (\<lambda>i. Inr (cast_output ty i)))"
      by (auto simp: convert_one_def)
    have 2: "\<forall>e. convert_one ext rgb2bgr ty min_max t = Inl e \<longrightarrow> library_error ext e"
      using convert_one_error [of ext rgb2bgr ty min_max t] d by auto
    from 1 2 show ?thesis by blast
  qed
  have c: "convert_one ext rgb2bgr ty min_max t
          = bind_err (make_grid ext (prepare min_max t) (int_sqrt (hd (tl (shape t))))) (\<lambda>grid.
            bind_err (transpose120 grid) (\<lambda>img.
            bind_err (if rgb2bgr then cvtColor_RGB2BGR ext img else Inr img)
              (\<lambda>i. Inr (cast_output ty i))))
        \<and> (\<forall>e. convert_one ext rgb2bgr ty min_max t = Inl e \<longrightarrow> library_error ext e)"
    if "dim t = 5" "hd (shape t) = 1"
  proof -
    from that have ne: "shape t \<noteq> []" by (auto simp: dim_def)
    with that have d': "dim (squeeze0 t) = 4" by (auto simp: dim_def shape_squeeze0)
    then have d: "dim (prepare min_max t) = 4" by simp
    have s: "shape (squeeze0 t) = tl (shape t)" using ne that by (simp add: shape_squeeze0)
    have 1: "convert_one ext rgb2bgr ty min_max t
          = bind_err (make_grid ext (prepare min_max t) (int_sqrt (hd (tl (shape t))))) (\<lambda>grid.
            bind_err (transpose120 grid) (\<lambda>img.
            bind_err (if rgb2bgr then cvtColor_RGB2BGR ext img else Inr img)
              (\<lambda>i. Inr (cast_output ty i))))"
      unfolding convert_one_def to_image_4d [OF d] shape_prepare s
      by (auto simp: bind_err_def split: sum.splits)
    have 2: "\<forall>e. convert_one ext rgb2bgr ty min_max t = Inl e \<longrightarrow> library_error ext e"
      using convert_one_error [of ext rgb2bgr ty min_max t] d' by auto
    from 1 2 show ?thesis by blast
  qed
  from a b c tensor2img_Tensor [of ext t rgb2bgr ty min_max] show ?thesis by blast
qed

lemmas codec_eval =
  convert_one_def to_image_def prepare_def normalize_def clamp_tensor_def squeeze0_def
  cast_output_def astype_def np_round_def transpose120_def np_squeeze2_def dim_def
  Let_def

lemma grid_example_shape:
  "\<exists>g. tv_make_grid (prepare (0, 1) \<lparr>shape = [1, 2, 3, 1, 1], elems = [0, 0, 0, 1, 1, 1]\<rparr>) 1
          = Inr g \<and> shape g = [3, 8, 5]"
  using tv_make_grid_shape
    [of "prepare (0, 1) \<lparr>shape = [1, 2, 3, 1, 1], elems = [0, 0, 0, 1, 1, 1]\<rparr>" 2 3 1 1 1]
  by (simp add: squeeze0_def eval_nat_numeral)

theorem leading_unit_dimension_removed_witness:
  "convert_one example_ext True UInt8 (0, 1) \<lparr>shape = [1, 1, 1, 2], elems = [1 / 5, 2]\<rparr>
     = Inr \<lparr>shape = [1, 2], elems = [51, 255]\<rparr>
   \<and> map_sum id shape
        (convert_one example_ext True UInt8 (0, 1)
           \<lparr>shape = [1, 2, 3, 1, 1], elems = [0, 0, 0, 1, 1, 1]\<rparr>)
     = Inr [8, 5, 3]"
proof -
  have a: "convert_one example_ext True UInt8 (0, 1) \<lparr>shape = [1, 1, 1, 2], elems = [1 / 5, 2]\<rparr>
     = Inr \<lparr>shape = [1, 2], elems = [51, 255]\<rparr>"
    using leading_unit_dimension_removed
      [of "\<lparr>shape = [1, 1, 1, 2], elems = [1 / 5, 2]\<rparr>" "(0, 1)" example_ext True UInt8]
    by (auto simp add: dim_def prepare_def normalize_def clamp_tensor_def squeeze0_def
        cast_output_def astype_def np_round_def transpose120_def np_squeeze2_def Let_def
        upt_small)
  let ?t = "\<lparr>shape = [1, 2, 3, 1, 1], elems = [0, 0, 0, 1, 1, 1]\<rparr>"
  from grid_example_shape obtain g where
    g: "tv_make_grid (prepare (0, 1) ?t) 1 = Inr g" "shape g = [3, 8, 5]" by blast
  from transpose120_3d [OF g(2)] obtain img where
    i: "transpose120 g = Inr img" "shape img = [8, 5, 3]" by blast
  from cv_rgb2bgr_shape [OF i(2)] obtain r where
    r: "cv_rgb2bgr img = Inr r" "shape r = [8, 5, 3]" by auto
  have "dim ?t = 5 \<and> hd (shape ?t) = 1" by (simp add: dim_def)
  with leading_unit_dimension_removed [of ?t "(0, 1)" example_ext True UInt8]
  have "convert_one example_ext True UInt8 (0, 1) ?t
          = bind_err (make_grid example_ext (prepare (0, 1) ?t) (int_sqrt (hd (tl (shape ?t)))))
             (\<lambda>grid. bind_err (transpose120 grid) (\<lambda>img.
               bind_err (if True then cvtColor_RGB2BGR example_ext img else Inr img)
                 (\<lambda>i. Inr (cast_output UInt8 i))))"
    by blast
  also have "\<dots> = Inr (cast_output UInt8 r)"
    by (simp add: int_sqrt_2 g i r del: One_nat_def)
  finally have b: "map_sum id shape (convert_one example_ext True UInt8 (0, 1) ?t) = Inr [8, 5, 3]"
    by (simp add: r)
  from a b show ?thesis by blast
qed

theorem leading_unit_dimension_removed_counterexample:
  "dim \<lparr>shape = [1, 0, 3, 1, 1], elems = []\<rparr> = 5
   \<and> hd (shape \<lparr>shape = [1, 0, 3, 1, 1], elems = []\<rparr>) = 1
   \<and> convert_one example_ext True UInt8 (0, 1) \<lparr>shape = [1, 0, 3, 1, 1], elems = []\<rparr>
       = Inl ZeroDivisionError
   \<and> tensor2img example_ext (Tensor \<lparr>shape = [1, 0, 3, 1, 1], elems = []\<rparr>) True UInt8 (0, 1)
       = Inl ZeroDivisionError"
proof -
  have a: "convert_one example_ext True UInt8 (0, 1) \<lparr>shape = [1, 0, 3, 1, 1], elems = []\<rparr>
       = Inl ZeroDivisionError"
    by (simp add: codec_eval int_sqrt_0 tv_make_grid_def)
  show ?thesis
    unfolding tensor2img_Tensor a by (simp add: dim_def)
qed

text \<open>
  Claim C5, as amended. After the removal of a leading dimension of size 1: a
  batched input of four dimensions whose batch size is not 1 is tiled by
  \<^verbatim>\<open>make_grid\<close> with \<open>floor(sqrt(batchSize))\<close> columns before the channel
  reordering; an input of three dimensions is converted as a single image,
  comes out with two dimensions when it has one channel, and keeps its channel
  axis for the channel reordering otherwise; an input of two dimensions whose
  first is not 1 passes through with its shape. What \<^verbatim>\<open>make_grid\<close>, the
  transposition of its grid or the colour conversion raise is passed on.
\<close>

theorem dimension_dispatch:
  "(dim t = 4 \<and> hd (shape t) \<noteq> 1 \<longrightarrow>
      convert_one ext rgb2bgr ty min_max t
        = bind_err (make_grid ext (prepare min_max t) (nat \<lfloor>sqrt (real (hd (shape t)))\<rfloor>))
            (\<lambda>grid. bind_err (transpose120 grid) (\<lambda>img.
               bind_err (if rgb2bgr then cvtColor_RGB2BGR ext img else Inr img)
                 (\<lambda>i. Inr (cast_output ty i)))))
   \<and> (dim t = 3 \<and> hd (shape t) = 1 \<longrightarrow>
      convert_one ext rgb2bgr ty min_max t = Inr (cast_output ty (prepare min_max t))
      \<and> shape (cast_output ty (prepare min_max t)) = tl (shape t))
   \<and> (dim t = 3 \<and> hd (shape t) \<noteq> 1 \<longrightarrow>
      (\<exists>img. transpose120 (prepare min_max t) = Inr img
         \<and> shape img = [shape t ! 1, shape t ! 2, hd (shape t)]
         \<and> convert_one ext rgb2bgr ty min_max t
             = bind_err (if rgb2bgr then cvtColor_RGB2BGR ext img else Inr img)
                 (\<lambda>i. Inr (cast_output ty i))))
   \<and> (dim t = 2 \<and> hd (shape t) \<noteq> 1 \<longrightarrow>
      convert_one ext rgb2bgr ty min_max t = Inr (cast_output ty (prepare min_max t))
      \<and> shape (cast_output ty (prepare min_max t)) = shape t)"
proof -
  have 4: "convert_one ext rgb2bgr ty min_max t
        = bind_err (make_grid ext (prepare min_max t) (nat \<lfloor>sqrt (real (hd (shape t)))\<rfloor>))
            (\<lambda>grid. bind_err (transpose120 grid) (\<lambda>img.
               bind_err (if rgb2bgr then cvtColor_RGB2BGR ext img else Inr img)
                 (\<lambda>i. Inr (cast_output ty i))))"
    if "dim t = 4" "hd (shape t) \<noteq> 1"
  proof -
    from that have s: "shape (squeeze0 t) = shape t" by (simp add: shape_squeeze0)
    with that have d: "dim (prepare min_max t) = 4" by (simp add: dim_def)
    show ?thesis
      unfolding convert_one_def to_image_4d [OF d] shape_prepare s int_sqrt_def
      by (auto simp: bind_err_def split: sum.splits)
  qed
  have 31: "convert_one ext rgb2bgr ty min_max t = Inr (cast_output ty (prepare min_max t))
      \<and> shape (cast_output ty (prepare min_max t)) = tl (shape t)"
    if "dim t = 3" "hd (shape t) = 1"
  proof -
    from that have s: "shape (squeeze0 t) = tl (shape t)"
      by (auto simp: shape_squeeze0 dim_def)
    with that have d: "dim (prepare min_max t) = 2" by (simp add: dim_def)
    show ?thesis by (simp add: convert_one_def to_image_2d [OF d] s)
  qed
  have 32: "\<exists>img. transpose120 (prepare min_max t) = Inr img
         \<and> shape img = [shape t ! 1, shape t ! 2, hd (shape t)]
         \<and> convert_one ext rgb2bgr ty min_max t
             = bind_err (if rgb2bgr then cvtColor_RGB2BGR ext img else Inr img)
                 (\<lambda>i. Inr (cast_output ty i))"
    if "dim t = 3" "hd (shape t) \<noteq> 1"
  proof -
    from that have s: "shape (squeeze0 t) = shape t" by (simp add: shape_squeeze0)
    with that have d: "dim (prepare min_max t) = 3" by (simp add: dim_def)
    from to_image_3d [OF d, of ext rgb2bgr] that show ?thesis
      by (auto simp: convert_one_def s)
  qed
  have 21: "convert_one ext rgb2bgr ty min_max t = Inr (cast_output ty (prepare min_max t))
      \<and> shape (cast_output ty (prepare min_max t)) = shape t"
    if "dim t = 2" "hd (shape t) \<noteq> 1"
  proof -
    from that have s: "shape (squeeze0 t) = shape t" by (simp add: shape_squeeze0)
    with that have d: "dim (prepare min_max t) = 2" by (simp add: dim_def)
    show ?thesis by (simp add: convert_one_def to_image_2d [OF d] s)
  qed
  from 4 31 32 21 show ?thesis by blast
qed

lemma prepare_batch_example:
  "shape (prepare (0, 1) \<lparr>shape = [2, 3, 1, 1], elems = [0, 0, 0, 1, 1, 1]\<rparr>) = [2, 3, 1, 1]"
  by (simp add: squeeze0_def)

lemma tv_make_grid_shape_eq:
  assumes "shape t = [b, c, h, w]" "b \<noteq> 1" "0 < min nrow b"
    and "c' = (if c = 1 then 3 else c)"
    and "hh = (h + 2) * ((b + min nrow b - 1) div min nrow b) + 2"
    and "ww = (w + 2) * min nrow b + 2"
  shows "\<exists>g. tv_make_grid t nrow = Inr g \<and> shape g = [c', hh, ww]"
  using tv_make_grid_shape [OF assms(1-3)] assms(4-6) by simp

lemma batch_example_grid:
  "\<exists>g. tv_make_grid (prepare (0, 1) \<lparr>shape = [2, 3, 1, 1], elems = [0, 0, 0, 1, 1, 1]\<rparr>) 1
          = Inr g \<and> shape g = [3, 8, 5]"
  "\<exists>g. tv_make_grid (prepare (0, 1) \<lparr>shape = [2, 3, 1, 1], elems = [0, 0, 0, 1, 1, 1]\<rparr>) 2
          = Inr g \<and> shape g = [3, 5, 8]"
  by (rule tv_make_grid_shape_eq [OF prepare_batch_example]; simp)+

lemma batch_example_pipeline:
  "\<exists>r. bind_err (tv_make_grid (prepare (0, 1)
                    \<lparr>shape = [2, 3, 1, 1], elems = [0, 0, 0, 1, 1, 1]\<rparr>) 1)
          (\<lambda>grid. bind_err (transpose120 grid) (\<lambda>img.
             bind_err (cv_rgb2bgr img) (\<lambda>i. Inr (cast_output UInt8 i))))
        = Inr r \<and> shape r = [8, 5, 3]"
proof -
  from batch_example_grid(1) obtain g where
    g: "tv_make_grid (prepare (0, 1) \<lparr>shape = [2, 3, 1, 1], elems = [0, 0, 0, 1, 1, 1]\<rparr>) 1
          = Inr g" "shape g = [3, 8, 5]" by blast
  from transpose120_3d [OF g(2)] obtain img where
    i: "transpose120 g = Inr img" "shape img = [8, 5, 3]" by blast
  from cv_rgb2bgr_shape [OF i(2)] obtain r where
    r: "cv_rgb2bgr img = Inr r" "shape r = [8, 5, 3]" by auto
  show ?thesis
    unfolding g(1) bind_err_Inr i(1) r(1) by (simp add: r(2))
qed

theorem dimension_dispatch_witness:
  "map_sum id shape
     (convert_one example_ext True UInt8 (0, 1)
        \<lparr>shape = [2, 3, 1, 1], elems = [0, 0, 0, 1, 1, 1]\<rparr>) = Inr [8, 5, 3]
   \<and> convert_one example_ext True UInt8 (0, 1) \<lparr>shape = [1, 1, 2], elems = [0, 1]\<rparr>
     = Inr \<lparr>shape = [1, 2], elems = [0, 255]\<rparr>
   \<and> convert_one example_ext True UInt8 (0, 1) \<lparr>shape = [3, 1, 1], elems = [0, 1, 1]\<rparr>
     = Inr \<lparr>shape = [1, 1, 3], elems = [255, 255, 0]\<rparr>
   \<and> convert_one example_ext True UInt8 (0, 1) \<lparr>shape = [2, 1], elems = [0, 1]\<rparr>
     = Inr \<lparr>shape = [2, 1], elems = [0, 255]\<rparr>"
proof -
  note ev = dim_def prepare_def normalize_def clamp_tensor_def squeeze0_def
        cast_output_def astype_def np_round_def transpose120_def Let_def upt_small
  let ?t = "\<lparr>shape = [2, 3, 1, 1], elems = [0, 0, 0, 1, 1, 1]\<rparr>"
  have "dim ?t = 4 \<and> hd (shape ?t) \<noteq> 1" by (simp add: dim_def)
  with dimension_dispatch [of ?t example_ext True UInt8 "(0, 1)"]
  have "convert_one example_ext True UInt8 (0, 1) ?t
        = bind_err (make_grid example_ext (prepare (0, 1) ?t)
                      (nat \<lfloor>sqrt (real (hd (shape ?t)))\<rfloor>))
            (\<lambda>grid. bind_err (transpose120 grid) (\<lambda>img.
               bind_err (if True then cvtColor_RGB2BGR example_ext img else Inr img)
                 (\<lambda>i. Inr (cast_output UInt8 i))))"
    by blast
  moreover have "nat \<lfloor>sqrt (real (hd (shape ?t)))\<rfloor> = 1"
    using int_sqrt_2 by (simp add: int_sqrt_def)
  ultimately have "convert_one example_ext True UInt8 (0, 1) ?t
        = bind_err (tv_make_grid (prepare (0, 1) ?t) 1)
            (\<lambda>grid. bind_err (transpose120 grid) (\<lambda>img.
               bind_err (cv_rgb2bgr img) (\<lambda>i. Inr (cast_output UInt8 i))))"
    by (simp del: One_nat_def)
  with batch_example_pipeline
  have a: "map_sum id shape (convert_one example_ext True UInt8 (0, 1) ?t) = Inr [8, 5, 3]"
    by auto
  have b: "convert_one example_ext True UInt8 (0, 1) \<lparr>shape = [1, 1, 2], elems = [0, 1]\<rparr>
     = Inr \<lparr>shape = [1, 2], elems = [0, 255]\<rparr>"
    using dimension_dispatch
      [of "\<lparr>shape = [1, 1, 2], elems = [0, 1]\<rparr>" example_ext True UInt8 "(0, 1)"]
    by (simp add: ev)
  have c: "convert_one example_ext True UInt8 (0, 1) \<lparr>shape = [3, 1, 1], elems = [0, 1, 1]\<rparr>
     = Inr \<lparr>shape = [1, 1, 3], elems = [255, 255, 0]\<rparr>"
    using dimension_dispatch
      [of "\<lparr>shape = [3, 1, 1], elems = [0, 1, 1]\<rparr>" example_ext True UInt8 "(0, 1)"]
    by (auto simp add: ev cv_rgb2bgr_def)
  have d: "convert_one example_ext True UInt8 (0, 1) \<lparr>shape = [2, 1], elems = [0, 1]\<rparr>
     = Inr \<lparr>shape = [2, 1], elems = [0, 255]\<rparr>"
    using dimension_dispatch
      [of "\<lparr>shape = [2, 1], elems = [0, 1]\<rparr>" example_ext True UInt8 "(0, 1)"]
    by (simp add: ev)
  from a b c d show ?thesis by blast
qed

theorem dimension_dispatch_counterexample:
  "dim \<lparr>shape = [2, 3, 1, 1], elems = [0, 0, 0, 1, 1, 1]\<rparr> = 4
   \<and> int_sqrt (hd (shape \<lparr>shape = [2, 3, 1, 1], elems = [0, 0, 0, 1, 1, 1]\<rparr>)) = 1
   \<and> nat \<lceil>sqrt (real (hd (shape \<lparr>shape = [2, 3, 1, 1], elems = [0, 0, 0, 1, 1, 1]\<rparr>)))\<rceil> = 2
   \<and> map_sum id shape
        (convert_one example_ext True UInt8 (0, 1)
           \<lparr>shape = [2, 3, 1, 1], elems = [0, 0, 0, 1, 1, 1]\<rparr>) = Inr [8, 5, 3]
   \<and> map_sum id shape
        (make_grid example_ext
           (prepare (0, 1) \<lparr>shape = [2, 3, 1, 1], elems = [0, 0, 0, 1, 1, 1]\<rparr>) 1)
       = Inr [3, 8, 5]
   \<and> map_sum id shape
        (make_grid example_ext
           (prepare (0, 1) \<lparr>shape = [2, 3, 1, 1], elems = [0, 0, 0, 1, 1, 1]\<rparr>) 2)
       = Inr [3, 5, 8]"
proof -
  let ?t = "\<lparr>shape = [2, 3, 1, 1], elems = [0, 0, 0, 1, 1, 1]\<rparr>"
  have d: "dim (prepare (0, 1) ?t) = 4" unfolding dim_def prepare_batch_example by simp
  have "convert_one example_ext True UInt8 (0, 1) ?t
        = bind_err (tv_make_grid (prepare (0, 1) ?t) 1)
            (\<lambda>grid. bind_err (transpose120 grid) (\<lambda>img.
               bind_err (cv_rgb2bgr img) (\<lambda>i. Inr (cast_output UInt8 i))))"
    unfolding convert_one_def to_image_4d [OF d] prepare_batch_example
    by (auto simp: int_sqrt_2 bind_err_def split: sum.splits simp del: One_nat_def)
  with batch_example_pipeline
  have a: "map_sum id shape (convert_one example_ext True UInt8 (0, 1) ?t) = Inr [8, 5, 3]"
    by auto
  from batch_example_grid
  have g: "map_sum id shape (make_grid example_ext (prepare (0, 1) ?t) 1) = Inr [3, 8, 5]"
    "map_sum id shape (make_grid example_ext (prepare (0, 1) ?t) 2) = Inr [3, 5, 8]"
    by (auto simp del: One_nat_def)
  have s: "int_sqrt (hd (shape ?t)) = 1" "nat \<lceil>sqrt (real (hd (shape ?t)))\<rceil> = 2"
    by (simp_all add: int_sqrt_2 ceil_sqrt_2)
  have "dim ?t = 4" by (simp add: dim_def)
  with a g s show ?thesis by blast
qed

text \<open>
  Claim C8, as amended. The codec fails with \<^verbatim>\<open>TypeError\<close> when the input is
  neither a tensor nor a list of tensors. For a tensor, and for a list of tensors
  in the order of the list, single-row matrices aside, it fails with
  \<^verbatim>\<open>TypeError\<close> exactly when the first tensor whose conversion does not return has
  a number of dimensions other than 2, 3 and 4 and is not a tensor of five
  dimensions with a leading 1. Every other failure is an error that
  \<^verbatim>\<open>make_grid\<close>, the transposition of its grid or the colour conversion raise,
  which is passed on; so a supported input returns whenever these return.
\<close>

theorem tensor2img_type_error:
  "(spec_supported_tensors x = None \<longrightarrow> tensor2img ext x rgb2bgr ty min_max = Inl TypeError)
   \<and> (\<forall>ts. spec_supported_tensors x = Some ts \<and> \<not> library_error ext TypeError
             \<and> list_all (\<lambda>t. \<not> single_row t) ts \<longrightarrow>
          (tensor2img ext x rgb2bgr ty min_max = Inl TypeError \<longleftrightarrow>
             (\<exists>us t vs. ts = us @ t # vs
                \<and> list_all (\<lambda>u. \<exists>r. convert_one ext rgb2bgr ty min_max u = Inr r) us
                \<and> \<not> dims_accepted t)))
   \<and> (\<forall>t. x = Tensor t \<and> \<not> library_error ext TypeError \<and> \<not> single_row t \<longrightarrow>
          (tensor2img ext x rgb2bgr ty min_max = Inl TypeError \<longleftrightarrow> \<not> dims_accepted t))
   \<and> (\<forall>e. tensor2img ext x rgb2bgr ty min_max = Inl e \<longrightarrow> e = TypeError \<or> library_error ext e)"
proof -
  have a: "spec_supported_tensors x = None \<longrightarrow> tensor2img ext x rgb2bgr ty min_max = Inl TypeError"
    by (simp add: tensor2img_supported)
  have b: "tensor2img ext x rgb2bgr ty min_max = Inl TypeError \<longleftrightarrow>
             (\<exists>us t vs. ts = us @ t # vs
                \<and> list_all (\<lambda>u. \<exists>r. convert_one ext rgb2bgr ty min_max u = Inr r) us
                \<and> \<not> dims_accepted t)"
    if s: "spec_supported_tensors x = Some ts" and lib: "\<not> library_error ext TypeError"
      and rows: "list_all (\<lambda>t. \<not> single_row t) ts" for ts
  proof -
    have 1: "tensor2img ext x rgb2bgr ty min_max = Inl TypeError
               \<longleftrightarrow> convert_all ext rgb2bgr ty min_max ts = Inl TypeError"
      using s by (cases "convert_all ext rgb2bgr ty min_max ts")
        (simp_all add: tensor2img_supported)
    have 2: "dim (squeeze0 t) \<notin> {2, 3, 4} \<longleftrightarrow> \<not> dims_accepted t"
      if "ts = us @ t # vs" for us t vs
    proof -
      from that rows have "\<not> single_row t" by (simp add: list_all_iff)
      from accepted_iff [OF this] show ?thesis by simp
    qed
    show ?thesis
      unfolding 1 convert_all_type_error [OF lib] using 2 by blast
  qed
  have c: "tensor2img ext x rgb2bgr ty min_max = Inl TypeError \<longleftrightarrow> \<not> dims_accepted t"
    if x: "x = Tensor t" and lib: "\<not> library_error ext TypeError" and row: "\<not> single_row t"
    for t
  proof
    assume "tensor2img ext x rgb2bgr ty min_max = Inl TypeError"
    then have "convert_one ext rgb2bgr ty min_max t = Inl TypeError"
      unfolding x tensor2img_Tensor
      by (cases "convert_one ext rgb2bgr ty min_max t") simp_all
    from convert_one_error [OF this] lib accepted_iff [OF row]
    show "\<not> dims_accepted t" by auto
  next
    assume "\<not> dims_accepted t"
    with accepted_iff [OF row] have "dim (squeeze0 t) \<notin> {2, 3, 4}" by simp
    from convert_one_type_error [OF this]
    show "tensor2img ext x rgb2bgr ty min_max = Inl TypeError"
      unfolding x tensor2img_Tensor by simp
  qed
  have d: "e = TypeError \<or> library_error ext e"
    if "tensor2img ext x rgb2bgr ty min_max = Inl e" for e
  proof (cases "spec_supported_tensors x")
    case None
    with that show ?thesis by (simp add: tensor2img_supported)
  next
    case (Some ts)
    with that have "convert_all ext rgb2bgr ty min_max ts = Inl e"
      by (cases "convert_all ext rgb2bgr ty min_max ts") (simp_all add: tensor2img_supported)
    from convert_all_error [OF this] show ?thesis .
  qed
  from a b c d show ?thesis by blast
qed

lemma convert_one_two_channels:
  "convert_one example_ext True UInt8 (0, 1) \<lparr>shape = [2, 1, 1], elems = [0, 1]\<rparr> = Inl CvError"
  by (simp add: codec_eval upt_small cv_rgb2bgr_def)

lemma convert_one_column:
  "convert_one example_ext True UInt8 (0, 1) \<lparr>shape = [2, 1], elems = [0, 1]\<rparr>
     = Inr \<lparr>shape = [2, 1], elems = [0, 255]\<rparr>"
  by (simp add: codec_eval)

lemma convert_one_single_batch:
  "convert_one example_ext True UInt8 (0, 1) \<lparr>shape = [1, 1, 1, 1, 2], elems = [0, 1]\<rparr>
     = Inr \<lparr>shape = [1, 2, 3], elems = [0, 0, 0, 255, 255, 255]\<rparr>"
  by (simp add: codec_eval upt_small int_sqrt_1 tv_make_grid_def cv_rgb2bgr_def)

theorem tensor2img_type_error_witness:
  "\<not> library_error example_ext TypeError
   \<and> tensor2img example_ext Other True UInt8 (0, 1) = Inl TypeError
   \<and> tensor2img example_ext (PyList [Tensor \<lparr>shape = [2, 1], elems = [0, 1]\<rparr>, Other])
        True UInt8 (0, 1) = Inl TypeError
   \<and> tensor2img example_ext (Tensor \<lparr>shape = [3], elems = [0, 1, 1]\<rparr>) True UInt8 (0, 1)
       = Inl TypeError
   \<and> tensor2img example_ext (Tensor \<lparr>shape = [2, 1], elems = [0, 1]\<rparr>) True UInt8 (0, 1)
       \<noteq> Inl TypeError
   \<and> tensor2img example_ext
        (PyList [Tensor \<lparr>shape = [2, 1], elems = [0, 1]\<rparr>,
                 Tensor \<lparr>shape = [3], elems = [0, 1, 1]\<rparr>])
        True UInt8 (0, 1) = Inl TypeError
   \<and> tensor2img example_ext (Tensor \<lparr>shape = [2, 1, 1], elems = [0, 1]\<rparr>) True UInt8 (0, 1)
       = Inl CvError
   \<and> library_error example_ext CvError"
proof -
  note t = tensor2img_type_error [of _ example_ext True UInt8 "(0, 1)"]
  note lib = no_type_error_example
  have a: "tensor2img example_ext Other True UInt8 (0, 1) = Inl TypeError"
    using t [of Other] by (simp add: spec_supported_tensors_def)
  have b: "tensor2img example_ext (PyList [Tensor \<lparr>shape = [2, 1], elems = [0, 1]\<rparr>, Other])
        True UInt8 (0, 1) = Inl TypeError"
    using t [of "PyList [Tensor \<lparr>shape = [2, 1], elems = [0, 1]\<rparr>, Other]"]
    by (simp add: spec_supported_tensors_def is_tensor_def)
  have c: "tensor2img example_ext (Tensor \<lparr>shape = [3], elems = [0, 1, 1]\<rparr>) True UInt8 (0, 1)
       = Inl TypeError"
    using t [of "Tensor \<lparr>shape = [3], elems = [0, 1, 1]\<rparr>"] lib
    by (simp add: single_row_def dims_accepted_def dim_def)
  have d: "tensor2img example_ext (Tensor \<lparr>shape = [2, 1], elems = [0, 1]\<rparr>) True UInt8 (0, 1)
       \<noteq> Inl TypeError"
    using t [of "Tensor \<lparr>shape = [2, 1], elems = [0, 1]\<rparr>"] lib
    by (simp add: single_row_def dims_accepted_def dim_def)
  let ?l = "[\<lparr>shape = [2, 1], elems = [0, 1]\<rparr>, \<lparr>shape = [3], elems = [0, 1, 1]\<rparr>]"
  have s: "spec_supported_tensors
             (PyList [Tensor \<lparr>shape = [2, 1], elems = [0, 1]\<rparr>,
                      Tensor \<lparr>shape = [3], elems = [0, 1, 1]\<rparr>]) = Some ?l"
    by (simp add: spec_supported_tensors_def is_tensor_def)
  have r: "list_all (\<lambda>t. \<not> single_row t) ?l"
    by (simp add: single_row_def dim_def)
  have "?l = [\<lparr>shape = [2, 1], elems = [0, 1]\<rparr>] @ \<lparr>shape = [3], elems = [0, 1, 1]\<rparr> # []
        \<and> list_all (\<lambda>u. \<exists>r. convert_one example_ext True UInt8 (0, 1) u = Inr r)
             [\<lparr>shape = [2, 1], elems = [0, 1]\<rparr>]
        \<and> \<not> dims_accepted \<lparr>shape = [3], elems = [0, 1, 1]\<rparr>"
    by (simp add: convert_one_column dims_accepted_def dim_def del: One_nat_def)
  then have ex: "\<exists>us t vs. ?l = us @ t # vs
        \<and> list_all (\<lambda>u. \<exists>r. convert_one example_ext True UInt8 (0, 1) u = Inr r) us
        \<and> \<not> dims_accepted t"
    by blast
  have e: "tensor2img example_ext
        (PyList [Tensor \<lparr>shape = [2, 1], elems = [0, 1]\<rparr>,
                 Tensor \<lparr>shape = [3], elems = [0, 1, 1]\<rparr>])
        True UInt8 (0, 1) = Inl TypeError"
    using t [of "PyList [Tensor \<lparr>shape = [2, 1], elems = [0, 1]\<rparr>,
                 Tensor \<lparr>shape = [3], elems = [0, 1, 1]\<rparr>]"] s lib r ex
    by blast
  have f: "tensor2img example_ext (Tensor \<lparr>shape = [2, 1, 1], elems = [0, 1]\<rparr>) True UInt8 (0, 1)
       = Inl CvError"
    unfolding tensor2img_Tensor convert_one_two_channels by simp
  have g: "library_error example_ext CvError"
    using t [of "Tensor \<lparr>shape = [2, 1, 1], elems = [0, 1]\<rparr>"] f by blast
  from lib a b c d e f g show ?thesis by blast
qed

theorem tensor2img_type_error_counterexample:
  "dim \<lparr>shape = [1, 1, 1, 1, 2], elems = [0, 1]\<rparr> = 5
   \<and> tensor2img example_ext (Tensor \<lparr>shape = [1, 1, 1, 1, 2], elems = [0, 1]\<rparr>) True UInt8 (0, 1)
       = Inr (Single \<lparr>shape = [1, 2, 3], elems = [0, 0, 0, 255, 255, 255]\<rparr>)
   \<and> dim \<lparr>shape = [2, 1, 1], elems = [0, 1]\<rparr> = 3
   \<and> tensor2img example_ext (Tensor \<lparr>shape = [2, 1, 1], elems = [0, 1]\<rparr>) True UInt8 (0, 1)
       = Inl CvError"
  unfolding tensor2img_Tensor convert_one_two_channels convert_one_single_batch
  by (simp add: dim_def)

section \<open>Peak signal-to-noise ratio\<close>

lemma psnr_of_zero: "psnr_of (Fin 0) = PInf"
  by (simp add: psnr_of_def)

lemma psnr_of_pos: "0 < m \<Longrightarrow> psnr_of (Fin m) = Fin (10 * log 10 (255 * 255 / m))"
  by (simp add: psnr_of_def)

text \<open>
  Claim C6. With the peak value 255 and a mean squared error \<open>mse \<ge> 0\<close>, the
  value computed is \<open>10 * log10(255^2 / mse)\<close> for \<open>mse > 0\<close>; it decreases strictly
  as the error increases; and it is the infinity \<open>+\<infinity>\<close>, a value and not a
  failure, exactly when the error is 0. Finite floating-point values are taken
  as reals.
\<close>

theorem psnr_monotone_and_infinite:
  "(0 \<le> mse \<longrightarrow> (psnr_of (Fin mse) = PInf \<longleftrightarrow> mse = 0))
   \<and> (0 < mse \<longrightarrow> psnr_of (Fin mse) = Fin (10 * log 10 (255\<^sup>2 / mse)))
   \<and> (0 \<le> mse \<and> mse < mse' \<longrightarrow> xless (psnr_of (Fin mse')) (psnr_of (Fin mse)))"
proof -
  have a: "psnr_of (Fin mse) = PInf \<longleftrightarrow> mse = 0" if "0 \<le> mse"
    using that psnr_of_zero psnr_of_pos [of mse] by (cases "mse = 0") auto
  have b: "psnr_of (Fin mse) = Fin (10 * log 10 (255\<^sup>2 / mse))" if "0 < mse"
    using psnr_of_pos [OF that] by (simp add: power2_eq_square)
  have c: "xless (psnr_of (Fin mse')) (psnr_of (Fin mse))" if "0 \<le> mse" "mse < mse'"
  proof (cases "mse = 0")
    case True
    with that show ?thesis by (simp add: psnr_of_zero psnr_of_pos)
  next
    case False
    with that have p: "0 < mse" "0 < mse'" by simp_all
    then have "255 * 255 / mse' < 255 * 255 / mse"
      using that(2) by (simp add: frac_less2)
    moreover have "0 < 255 * 255 / mse'" "0 < 255 * 255 / mse" using p by simp_all
    ultimately have "log 10 (255 * 255 / mse') < log 10 (255 * 255 / mse)"
      by (subst log_less_cancel_iff) simp_all
    with p show ?thesis by (simp add: psnr_of_pos)
  qed
  from a b c show ?thesis by blast
qed

theorem psnr_monotone_and_infinite_witness:
  "psnr_of (Fin 0) = PInf
   \<and> psnr_of (Fin 65025) = Fin 0
   \<and> xless (psnr_of (Fin 65025)) (psnr_of (Fin 1))
   \<and> xless (psnr_of (Fin 1)) (psnr_of (Fin 0))"
  using psnr_monotone_and_infinite [of 0 1] psnr_monotone_and_infinite [of 1 65025]
    psnr_monotone_and_infinite [of 65025 65026]
  by simp

section \<open>Aggregation over the run\<close>

lemma bind_err_eq_Inr:
  "bind_err m f = Inr y \<longleftrightarrow> (\<exists>x. m = Inr x \<and> f x = Inr y)"
  by (cases m) simp_all

lemma np_vstack_Inr:
  "np_vstack rows = Inr a \<longleftrightarrow>
     rows \<noteq> [] \<and> list_all (\<lambda>r. length r = length (hd rows)) rows \<and> a = rows"
  by (auto simp: np_vstack_def)

lemma window_assembly_flag:
  assumes "window_assembly ds g lo hi idx = Inr (w, flag)"
  shows "boundary_flag ds lo hi idx = Inr flag"
  using assms by (auto simp: window_assembly_def bind_err_eq_Inr)

lemma assign_result_dict_fields [simp]:
  "psnrs (assign_result_dict a st) = psnrs st" "aads (assign_result_dict a st) = aads st"
  "ssims (assign_result_dict a st) = ssims st" "atts (assign_result_dict a st) = atts st"
  "masks (assign_result_dict a st) = masks st"
  by (simp_all add: assign_result_dict_def)

lemma iteration_step:
  assumes inv: "loop_invariant n st"
    and it: "iteration ext ds g lo hi st idx = Inr st'"
  shows "loop_invariant (Suc n) st'
       \<and> (\<exists>flag. boundary_flag ds lo hi idx = Inr flag \<and> masks st' = masks st @ [flag])"
proof -
  from it obtain val_data flag corr psnr aad s where
    w: "window_assembly ds g lo hi idx = Inr (val_data, flag)"
    and c1: "\<not> length corr \<le> 1"
    and v: "list_all (\<lambda>r. length r = length (hd (atts st @ [corr]))) (atts st @ [corr])"
    and st': "st' = assign_result_dict (atts st @ [corr])
                (st\<lparr>masks := masks st @ [flag], psnrs := psnrs st @ [psnr],
                    aads := aads st @ [aad], ssims := ssims st @ [s],
                    atts := atts st @ [corr]\<rparr>)"
    by (auto simp: iteration_def bind_err_eq_Inr Let_def np_vstack_Inr split: if_splits)
  from c1 have c: "corr \<noteq> []" by auto
  from inv have len: "length (psnrs st) = n" "length (aads st) = n" "length (ssims st) = n"
    "length (atts st) = n" "length (masks st) = n"
    and rows: "list_all (\<lambda>r. r \<noteq> [] \<and> length r = length (hd (atts st))) (atts st)"
    and rd: "result_dict st =
        (if n = 0 then None
         else result_dict (assign_result_dict (atts st) (st\<lparr>result_dict := None\<rparr>)))"
    by (simp_all add: loop_invariant_def)
  have rows': "list_all (\<lambda>r. r \<noteq> [] \<and> length r = length (hd (atts st @ [corr])))
                 (atts st @ [corr])"
  proof (cases "atts st")
    case Nil
    with c show ?thesis by simp
  next
    case (Cons a as)
    with v rows c show ?thesis by (auto simp: list_all_iff)
  qed
  have w': "length (hd (atts st @ [corr])) = length (hd (atts st))" if "n \<noteq> 0"
    using that len(4) by (cases "atts st") auto
  have rd': "result_dict st' =
        result_dict (assign_result_dict (atts st') (st'\<lparr>result_dict := None\<rparr>))"
  proof (cases "n = 0")
    case True
    with rd st' show ?thesis by (simp add: assign_result_dict_def)
  next
    case False
    with rd w' [OF False] st' show ?thesis by (simp add: assign_result_dict_def)
  qed
  have "loop_invariant (Suc n) st'"
    using len rows' rd' unfolding loop_invariant_def st' by simp
  moreover have "masks st' = masks st @ [flag]" by (simp add: st')
  ultimately show ?thesis using window_assembly_flag [OF w] by blast
qed

lemma run_loop_invariant:
  assumes "loop_invariant n st"
    and "run_loop ext ds g lo hi st idxs = Inr st'"
  shows "loop_invariant (n + length idxs) st'
       \<and> (\<exists>flags. map (boundary_flag ds lo hi) idxs = map Inr flags
                  \<and> masks st' = masks st @ flags)"
  using assms
proof (induction idxs arbitrary: n st)
  case Nil
  then show ?case by simp
next
  case (Cons idx idxs)
  from Cons.prems(2) obtain st1 where
    1: "iteration ext ds g lo hi st idx = Inr st1"
    and 2: "run_loop ext ds g lo hi st1 idxs = Inr st'"
    by (auto simp: bind_err_eq_Inr)
  from iteration_step [OF Cons.prems(1) 1] obtain flag where
    i: "loop_invariant (Suc n) st1" "boundary_flag ds lo hi idx = Inr flag"
       "masks st1 = masks st @ [flag]" by blast
  from Cons.IH [OF i(1) 2] obtain flags where
    r: "loop_invariant (Suc n + length idxs) st'"
       "map (boundary_flag ds lo hi) idxs = map Inr flags" "masks st' = masks st1 @ flags"
    by blast
  have "map (boundary_flag ds lo hi) (idx # idxs) = map Inr (flag # flags)"
    using i(2) r(2) by simp
  moreover have "masks st' = masks st @ (flag # flags)" using i(3) r(3) by simp
  ultimately show ?case using r(1) by (metis add_Suc_shift length_Cons)
qed

lemma loop_invariant_init: "loop_invariant 0 init_state"
  by (simp add: loop_invariant_def init_state_def)

lemma upt_4: "[0..<4] = [0, 1, 2, 3]"
  by (simp add: upt_rec)

lemma upt_5: "[0..<5] = [0, 1, 2, 3, 4]"
  by (simp add: upt_rec)

lemma report_of_invariant:
  assumes inv: "loop_invariant n st" and n: "0 < n"
  shows "case spec_attention_names (length (hd (atts st))) of
           None \<Rightarrow> report st = Inl (NameError ''result_dict'')
         | Some names \<Rightarrow> report st = Inr (spec_report names st)"
proof -
  from inv n have len: "length (psnrs st) = n" "length (aads st) = n" "length (ssims st) = n"
    "length (atts st) = n" "length (masks st) = n"
    and rd: "result_dict st
               = result_dict (assign_result_dict (atts st) (st\<lparr>result_dict := None\<rparr>))"
    by (simp_all add: loop_invariant_def)
  from len n have m: "masks st \<noteq> []" by auto
  consider (4) "length (hd (atts st)) = 4" | (5) "length (hd (atts st)) = 5"
    | (other) "length (hd (atts st)) \<noteq> 4" "length (hd (atts st)) \<noteq> 5" by blast
  then show ?thesis
  proof cases
    case 4
    then show ?thesis
      using m len rd
      by (simp add: spec_attention_names_def report_def assign_result_dict_def data_frame_def
          att_column_def spec_report_def upt_4 eval_nat_numeral)
  next
    case 5
    then show ?thesis
      using m len rd
      by (simp add: spec_attention_names_def report_def assign_result_dict_def data_frame_def
          att_column_def spec_report_def upt_5 eval_nat_numeral)
  next
    case other
    then show ?thesis
      using m rd
      by (simp add: spec_attention_names_def report_def assign_result_dict_def)
  qed
qed

lemma window_assembly_wf_ref:
  assumes wf: "wf_dataset key lsh rsh ds"
    and idx: "0 \<le> idx" "idx < int (length ds)" and lo: "1 \<le> lo" and hi: "1 \<le> hi"
    and e: "0 \<le> min g (spec_blkStart idx hi + 2 * hi)"
           "min g (spec_blkStart idx hi + 2 * hi) < int (length ds)"
  shows "\<exists>w r. window_assembly ds g lo hi idx
              = Inr (w, if idx = spec_blkStart idx hi \<or> idx = lo_next_index ds idx lo then 1 else 0)
           \<and> (ds ! nat idx) key = Some r \<and> w key = Some (unsqueeze0 r)"
proof -
  from load_target_wf [OF wf_dataset_nth [OF wf idx] idx]
  obtain l r h where l: "shape l = lsh" and r: "(ds ! nat idx) key = Some r"
    and v0: "load_target ds idx
              = Inr [''lq'' \<mapsto> unsqueeze0 l, key \<mapsto> unsqueeze0 r, ''hq'' \<mapsto> unsqueeze0 h]"
    by blast
  let ?v0 = "[''lq'' \<mapsto> unsqueeze0 l, key \<mapsto> unsqueeze0 r, ''hq'' \<mapsto> unsqueeze0 h]"
  have k: "key = ''gt'' \<or> key = ''image''"
    using wf_dataset_nth [OF wf idx] by (auto simp: wf_sample_def)
  then have "?v0 ''lq'' = Some (unsqueeze0 l)" by auto
  from assemble_lq_wf [where v = ?v0 and c = l, OF wf idx lo this l]
  obtain t where v1: "assemble_lq ds lo idx ?v0 = Inr (?v0(''lq'' \<mapsto> t))" by blast
  from assemble_hq_wf [OF wf idx hi e, of "?v0(''lq'' \<mapsto> t)"]
  obtain u where v2: "assemble_hq ds g hi idx (?v0(''lq'' \<mapsto> t))
                       = Inr (?v0(''lq'' \<mapsto> t, ''hq'' \<mapsto> u))" by blast
  have 1: "(?v0(''lq'' \<mapsto> t, ''hq'' \<mapsto> u)) key = Some (unsqueeze0 r)"
    using k by auto
  have 2: "window_assembly ds g lo hi idx
        = Inr (?v0(''lq'' \<mapsto> t, ''hq'' \<mapsto> u),
               if idx = spec_blkStart idx hi \<or> idx = lo_next_index ds idx lo then 1 else 0)"
    unfolding window_assembly_def v0 bind_err_Inr v1 v2 boundary_flag_def
      hi_start_index_eq [OF idx(1) hi]
    by (rule refl)
  from 1 2 r show ?thesis by blast
qed

lemma score_example:
  assumes "w ''gt'' = Some \<lparr>shape = [1, 1, 1, 1], elems = [v]\<rparr>" "1 \<le> v"
  shows "score example_ext w \<lparr>shape = [1, 1, 1, 1], elems = [1]\<rparr> = Inr (PInf, Fin 0, 1)"
proof -
  have a: "tensor2img example_ext (Tensor \<lparr>shape = [1, 1, 1, 1], elems = [x]\<rparr>) True UInt8 (0, 1)
             = Inr (Single \<lparr>shape = [1, 1], elems = [255]\<rparr>)" if "1 \<le> x" for x :: real
    using that by (simp add: tensor2img_Tensor codec_eval upt_small min_def max_def)
  have n: "np_subtract example_ext \<lparr>shape = [1, 1], elems = [255]\<rparr>
             \<lparr>shape = [1, 1], elems = [255]\<rparr> = Inr \<lparr>shape = [1, 1], elems = [0]\<rparr>"
    by (simp add: example_ext_def)
  have s: "ssim example_ext a b = Inr 1" for a b by (simp add: example_ext_def)
  have c: "clip255 \<lparr>shape = [1, 1], elems = [255]\<rparr> = \<lparr>shape = [1, 1], elems = [255]\<rparr>"
    by (simp add: clip255_def)
  show ?thesis
    using assms
    by (simp add: score_def a c n s as_array_def has_key_def dict_get_def dim_def
        np_mean_def psnr_of_def Let_def del: One_nat_def)
qed

text \<open>
  Claim C9. After a run over a non-empty list of indices, the report is
  determined by the width of the attention vectors: for the width 4 its
  attention columns are \<open>t-1 lo, t lo, t+1 lo, t hi\<close>, for the width 5 they are
  \<open>t-1 lo, t lo, t+1 lo, t-1 hi, t+1 hi\<close>, and for any other width no report is
  made (the run fails on the unbound \<^verbatim>\<open>result_dict\<close>); the report has one row for
  every processed index, and its mask column holds the boundary flags of the
  processed indices.
\<close>

theorem report_schema:
  assumes run: "run_loop ext dataset maxValidHiIndex loSep hiSep init_state idxs = Inr st"
    and ne: "idxs \<noteq> []"
  shows "length (atts st) = length idxs
       \<and> (\<forall>r \<in> set (atts st). length r = length (hd (atts st)))
       \<and> map (boundary_flag dataset loSep hiSep) idxs = map Inr (masks st)
       \<and> (case spec_attention_names (length (hd (atts st))) of
             None \<Rightarrow> report st = Inl (NameError ''result_dict'')
           | Some names \<Rightarrow>
               report st = Inr (spec_report names st)
               \<and> list_all (\<lambda>kc. column_length (snd kc) = length idxs) (spec_report names st))"
proof -
  from run_loop_invariant [OF loop_invariant_init run]
  obtain flags where inv: "loop_invariant (length idxs) st"
    and f: "map (boundary_flag dataset loSep hiSep) idxs = map Inr flags"
    and m: "masks st = masks init_state @ flags" by auto
  from m have m': "masks st = flags" by (simp add: init_state_def)
  from ne have n: "0 < length idxs" by simp
  from inv have len: "length (psnrs st) = length idxs" "length (aads st) = length idxs"
    "length (ssims st) = length idxs" "length (atts st) = length idxs"
    "length (masks st) = length idxs"
    and rows: "\<forall>r \<in> set (atts st). length r = length (hd (atts st))"
    by (simp_all add: loop_invariant_def list_all_iff)
  have cols: "list_all (\<lambda>kc. column_length (snd kc) = length idxs) (spec_report names st)"
    for names
    using len by (auto simp: spec_report_def list_all_iff dest!: set_zip_leftD set_zip_rightD
        elim!: in_set_zipE)
  from report_of_invariant [OF inv n] cols
  have "case spec_attention_names (length (hd (atts st))) of
             None \<Rightarrow> report st = Inl (NameError ''result_dict'')
           | Some names \<Rightarrow>
               report st = Inr (spec_report names st)
               \<and> list_all (\<lambda>kc. column_length (snd kc) = length idxs) (spec_report names st)"
    by (auto split: option.splits)
  with len(4) rows f m' show ?thesis by simp
qed

lemma iteration_example:
  assumes idx: "0 \<le> idx" "idx < 10"
    and rows: "list_all (\<lambda>r. length r = 4) (atts st)"
  shows "iteration example_ext example_dataset 9 1 1 st idx
     = Inr (assign_result_dict (atts st @ [[1 / 4, 1 / 4, 1 / 4, 1 / 4]])
         (st\<lparr>masks := masks st @ [if idx = spec_blkStart idx 1
                                      \<or> idx = lo_next_index example_dataset idx 1
                                   then 1 else 0],
             psnrs := psnrs st @ [PInf], aads := aads st @ [Fin 0], ssims := ssims st @ [1],
             atts := atts st @ [[1 / 4, 1 / 4, 1 / 4, 1 / 4]]\<rparr>))"
proof -
  have i: "idx < int (length example_dataset)" using idx by (simp add: length_example)
  have e: "0 \<le> min 9 (spec_blkStart idx 1 + 2 * 1)"
    "min 9 (spec_blkStart idx 1 + 2 * 1) < int (length example_dataset)"
    using blkStart_nonneg [OF idx(1), of 1] by (simp_all add: length_example)
  from window_assembly_wf_ref [OF wf_example idx(1) i _ _ e, of 1]
  obtain w r where w: "window_assembly example_dataset 9 1 1 idx
              = Inr (w, if idx = spec_blkStart idx 1 \<or> idx = lo_next_index example_dataset idx 1
                        then 1 else 0)"
    and r: "(example_dataset ! nat idx) ''gt'' = Some r" and g: "w ''gt'' = Some (unsqueeze0 r)"
    by auto
  have "list_all (\<lambda>s. \<exists>v\<ge>1. s ''gt'' = Some \<lparr>shape = [1, 1, 1], elems = [v]\<rparr>) example_dataset"
    by (simp add: example_dataset_def example_sample_def)
  then obtain v where "1 \<le> v"
    "(example_dataset ! nat idx) ''gt'' = Some \<lparr>shape = [1, 1, 1], elems = [v]\<rparr>"
    using idx i unfolding list_all_length by (metis nat_less_iff)
  with r g have g': "w ''gt'' = Some \<lparr>shape = [1, 1, 1, 1], elems = [v]\<rparr>" and v: "1 \<le> v"
    by (auto simp add: unsqueeze0_def)
  have s: "score example_ext w \<lparr>shape = [1, 1, 1, 1], elems = [1]\<rparr> = Inr (PInf, Fin 0, 1)"
    using g' v by (rule score_example [where w = w and v = v])
  have m: "model example_ext w
             = Inr (\<lparr>shape = [1, 1, 1, 1], elems = [1]\<rparr>, [1 / 4, 1 / 4, 1 / 4, 1 / 4])"
    by (simp add: example_ext_def)
  have vs: "np_vstack (atts st @ [[1 / 4, 1 / 4, 1 / 4, 1 / 4]])
             = Inr (atts st @ [[1 / 4, 1 / 4, 1 / 4, 1 / 4]])"
    using rows by (cases "atts st") (auto simp: np_vstack_def list_all_iff)
  show ?thesis
    unfolding iteration_def w bind_err_Inr prod.case m s Let_def
    by (simp add: vs)
qed

lemma flags_example:
  "(if (1::int) = spec_blkStart 1 1 \<or> 1 = lo_next_index example_dataset 1 1 then 1 else 0) = (0::int)"
  "(if (2::int) = spec_blkStart 2 1 \<or> 2 = lo_next_index example_dataset 2 1 then 1 else 0) = (1::int)"
  by (simp_all add: spec_blkStart_def lo_next_index_def length_example)

lemma iteration_example_1:
  "iteration example_ext example_dataset 9 1 1 init_state 1
     = Inr (assign_result_dict [[1 / 4, 1 / 4, 1 / 4, 1 / 4]]
         (init_state\<lparr>masks := [0], psnrs := [PInf], aads := [Fin 0], ssims := [1],
             atts := [[1 / 4, 1 / 4, 1 / 4, 1 / 4]]\<rparr>))"
proof -
  have a: "atts init_state = []" "masks init_state = []" "psnrs init_state = []"
    "aads init_state = []" "ssims init_state = []"
    by (simp_all add: init_state_def)
  have "list_all (\<lambda>r. length r = 4) (atts init_state)" by (simp add: a)
  from iteration_example [OF _ _ this, of 1] show ?thesis
    unfolding flags_example a append_Nil by simp
qed

lemma run_loop_example:
  "\<exists>st. run_loop example_ext example_dataset 9 1 1 init_state [1, 2] = Inr st
        \<and> psnrs st = [PInf, PInf] \<and> aads st = [Fin 0, Fin 0] \<and> ssims st = [1, 1]
        \<and> atts st = [[1 / 4, 1 / 4, 1 / 4, 1 / 4], [1 / 4, 1 / 4, 1 / 4, 1 / 4]]
        \<and> masks st = [0, 1]"
proof -
  define st1 where "st1 = assign_result_dict [[1 / 4, 1 / 4, 1 / 4, 1 / 4]]
         (init_state\<lparr>masks := [0], psnrs := [PInf], aads := [Fin 0], ssims := [1],
             atts := [[1 / 4, 1 / 4, 1 / 4, 1 / 4]]\<rparr>)"
  have f1: "psnrs st1 = [PInf]" "aads st1 = [Fin 0]" "ssims st1 = [1]"
    "atts st1 = [[1 / 4, 1 / 4, 1 / 4, 1 / 4]]" "masks st1 = [0]"
    by (simp_all add: st1_def)
  have 1: "iteration example_ext example_dataset 9 1 1 init_state 1 = Inr st1"
    unfolding st1_def by (rule iteration_example_1)
  have "list_all (\<lambda>r. length r = 4) (atts st1)" by (simp add: f1)
  from iteration_example [OF _ _ this, of 2]
  obtain st2 where 2: "iteration example_ext example_dataset 9 1 1 st1 2 = Inr st2"
    and st2: "st2 = assign_result_dict (atts st1 @ [[1 / 4, 1 / 4, 1 / 4, 1 / 4]])
         (st1\<lparr>masks := masks st1 @ [1],
             psnrs := psnrs st1 @ [PInf], aads := aads st1 @ [Fin 0], ssims := ssims st1 @ [1],
             atts := atts st1 @ [[1 / 4, 1 / 4, 1 / 4, 1 / 4]]\<rparr>)"
    unfolding flags_example by simp
  have f2: "psnrs st2 = [PInf, PInf]" "aads st2 = [Fin 0, Fin 0]" "ssims st2 = [1, 1]"
    "atts st2 = [[1 / 4, 1 / 4, 1 / 4, 1 / 4], [1 / 4, 1 / 4, 1 / 4, 1 / 4]]" "masks st2 = [0, 1]"
    unfolding st2 by (simp_all add: f1)
  have "run_loop example_ext example_dataset 9 1 1 init_state [1, 2] = Inr st2"
    unfolding run_loop.simps 1 2 bind_err_Inr by (rule refl)
  with f2 show ?thesis by blast
qed

theorem report_schema_witness:
  "\<exists>st. run_loop example_ext example_dataset 9 1 1 init_state [1, 2] = Inr st
        \<and> report st
            = Inr [(''psnr'', Floats [PInf, PInf]), (''aad'', Floats [Fin 0, Fin 0]),
                   (''ssim'', Reals [1, 1]),
                   (''t-1 lo'', Reals [1 / 4, 1 / 4]), (''t lo'', Reals [1 / 4, 1 / 4]),
                   (''t+1 lo'', Reals [1 / 4, 1 / 4]), (''t hi'', Reals [1 / 4, 1 / 4]),
                   (''mask'', Ints [0, 1])]
        \<and> map (boundary_flag example_dataset 1 1) [1, 2] = [Inr 0, Inr 1]"
proof -
  from run_loop_example obtain st where
    r: "run_loop example_ext example_dataset 9 1 1 init_state [1, 2] = Inr st"
    and s: "psnrs st = [PInf, PInf]" "aads st = [Fin 0, Fin 0]" "ssims st = [1, 1]"
      "atts st = [[1 / 4, 1 / 4, 1 / 4, 1 / 4], [1 / 4, 1 / 4, 1 / 4, 1 / 4]]"
      "masks st = [0, 1]"
    by blast
  have n: "spec_attention_names (length (hd (atts st)))
             = Some [''t-1 lo'', ''t lo'', ''t+1 lo'', ''t hi'']"
    by (simp add: s spec_attention_names_def)
  have t: "spec_report [''t-1 lo'', ''t lo'', ''t+1 lo'', ''t hi''] st
            = [(''psnr'', Floats [PInf, PInf]), (''aad'', Floats [Fin 0, Fin 0]),
                   (''ssim'', Reals [1, 1]),
                   (''t-1 lo'', Reals [1 / 4, 1 / 4]), (''t lo'', Reals [1 / 4, 1 / 4]),
                   (''t+1 lo'', Reals [1 / 4, 1 / 4]), (''t hi'', Reals [1 / 4, 1 / 4]),
                   (''mask'', Ints [0, 1])]"
    by (simp add: spec_report_def s upt_4)
  have ne: "[1::int, 2] \<noteq> []" by simp
  note rs = report_schema [OF r ne, unfolded n option.case]
  have a: "report st = Inr (spec_report [''t-1 lo'', ''t lo'', ''t+1 lo'', ''t hi''] st)"
    by (rule rs [THEN conjunct2, THEN conjunct2, THEN conjunct2, THEN conjunct1])
  have b: "map (boundary_flag example_dataset 1 1) [1, 2] = map Inr (masks st)"
    by (rule rs [THEN conjunct2, THEN conjunct2, THEN conjunct1])
  have c: "map Inr (masks st) = [Inr 0, Inr (1::int) :: error + int]"
    unfolding s by simp
  show ?thesis
    by (rule exI [of _ st], intro conjI, rule r, unfold a t, rule refl, unfold b c, rule refl)
qed

end
